theory Spec2Isabelle
  imports Complex_Main
begin

section \<open>HumdrumLine: one row of a Humdrum file\<close>

text \<open>
  A shallow embedding of \<^verbatim>\<open>HumdrumLine.cpp\<close> (humlib). A \<^verbatim>\<open>HumdrumLine\<close> is a
  \<^verbatim>\<open>std::string\<close> (the text of the row) together with the tokens cut from it, the
  widths of the tab runs between them, and the timing fields that the rhythm analysis of
  the owning file fills in.

  C++ \<^verbatim>\<open>int\<close> and \<^verbatim>\<open>size_t\<close> values are modelled as \<open>int\<close> and \<open>nat\<close>. Sizes of
  strings and vectors are taken to fit an \<^verbatim>\<open>int\<close>; the one place where the code
  computes with numbers read from the input (\<^verbatim>\<open>analyzeTracks\<close>) has its signed
  overflow written out as an error.
\<close>

subsection \<open>Failures\<close>

text \<open>
  What the C++ can do instead of returning: read a string outside its bounds with
  \<^verbatim>\<open>operator[]\<close>, throw \<^verbatim>\<open>std::out_of_range\<close> from \<^verbatim>\<open>at()\<close>, follow a null
  pointer, or overflow a signed integer.
\<close>

datatype error = OutOfBounds | OutOfRange | NullPointer | SignedOverflow

subsection \<open>Characters and strings\<close>

definition NUL :: char where
  "NUL = CHR 0x00"

definition TAB :: char where
  "TAB = CHR 0x09"

definition CR :: char where
  "CR = CHR 0x0D"

text \<open>\<^verbatim>\<open>isspace\<close> and \<^verbatim>\<open>isdigit\<close> of the C locale.\<close>

definition isspace :: "char \<Rightarrow> bool" where
  "isspace c = (c = CHR '' '' \<or> c = CHR 0x09 \<or> c = CHR 0x0A \<or> c = CHR 0x0B
     \<or> c = CHR 0x0C \<or> c = CHR 0x0D)"

definition isdigit :: "char \<Rightarrow> bool" where
  "isdigit c = (48 \<le> (of_char c :: nat) \<and> (of_char c :: nat) \<le> 57)"

text \<open>\<^verbatim>\<open>c - '0'\<close> for a character \<open>c\<close>.\<close>

definition digit_value :: "char \<Rightarrow> int" where
  "digit_value c = int (of_char c) - 48"

text \<open>
  \<^verbatim>\<open>s[index]\<close>: the behaviour is undefined outside the string, which the model
  reports as \<open>OutOfBounds\<close>.
\<close>

definition subscript :: "string \<Rightarrow> int \<Rightarrow> error + char" where
  "subscript s index =
     (if 0 \<le> index \<and> index < int (length s) then Inr (s ! nat index) else Inl OutOfBounds)"

text \<open>\<^verbatim>\<open>s.at(index)\<close>: throws \<^verbatim>\<open>std::out_of_range\<close> outside the string.\<close>

definition string_at :: "string \<Rightarrow> int \<Rightarrow> error + char" where
  "string_at s index =
     (if 0 \<le> index \<and> index < int (length s) then Inr (s ! nat index) else Inl OutOfRange)"

text \<open>
  \<^verbatim>\<open>s.find(c)\<close> for a one-character needle: the position of its first occurrence,
  \<open>None\<close> for \<^verbatim>\<open>string::npos\<close>.
\<close>

fun find_from :: "nat \<Rightarrow> char \<Rightarrow> string \<Rightarrow> nat option" where
  "find_from pos c [] = None"
| "find_from pos c (x # xs) = (if x = c then Some pos else find_from (Suc pos) c xs)"

definition string_find :: "string \<Rightarrow> char \<Rightarrow> nat option" where
  "string_find s c = find_from 0 c s"

text \<open>
  \<^verbatim>\<open>s.substr(pos, len)\<close> and \<^verbatim>\<open>s.substr(pos)\<close>: \<^verbatim>\<open>std::out_of_range\<close> when
  \<open>pos\<close> is beyond the end of the string.
\<close>

definition substr :: "string \<Rightarrow> int \<Rightarrow> int \<Rightarrow> error + string" where
  "substr s pos len =
     (if 0 \<le> pos \<and> pos \<le> int (length s) then Inr (take (nat len) (drop (nat pos) s))
      else Inl OutOfRange)"

definition substr_from :: "string \<Rightarrow> int \<Rightarrow> error + string" where
  "substr_from s pos =
     (if 0 \<le> pos \<and> pos \<le> int (length s) then Inr (drop (nat pos) s) else Inl OutOfRange)"

subsection \<open>Tokens, files and lines\<close>

text \<open>
  Modelled from the spec: \<^verbatim>\<open>HumNum\<close> (\<^verbatim>\<open>HumNum.h\<close> is not among the sources). The
  specification describes it as an exact rational with the four arithmetic operations and
  an ordering, which is what \<open>rat\<close> is.
\<close>

type_synonym HumNum = rat

text \<open>
  Modelled from the spec: \<^verbatim>\<open>HumdrumToken\<close> (\<^verbatim>\<open>HumdrumToken.cpp\<close> is not among the
  sources). The specification gives a token its text, its spine-path text, its track and
  its subtrack; a token is a \<^verbatim>\<open>std::string\<close> with an address. The fields are the ones
  \<^verbatim>\<open>HumdrumLine\<close> reads and writes through \<^verbatim>\<open>getSpineInfo\<close>,
  \<^verbatim>\<open>setTrack\<close>/\<^verbatim>\<open>getTrack\<close>, \<^verbatim>\<open>setSubtrack\<close> and \<^verbatim>\<open>setSubtrackCount\<close>; the
  setters are taken to store their argument.
\<close>

record HumdrumToken =
  tok_string :: string
  tok_spineInfo :: string
  tok_track :: int
  tok_subtrack :: int
  tok_subtrackCount :: int

text \<open>
  \<^verbatim>\<open>new HumdrumToken(s)\<close>. The constructors of \<^verbatim>\<open>HumdrumToken\<close> are not among the
  sources: \<open>blank\<close> stands for the address a new token starts with, and the token's text
  is the constructor's argument. The constructor from a \<^verbatim>\<open>const char*\<close> reads up to the
  first NUL character.
\<close>

definition new_HumdrumToken :: "HumdrumToken \<Rightarrow> string \<Rightarrow> HumdrumToken" where
  "new_HumdrumToken blank s = blank\<lparr>tok_string := s\<rparr>"

definition c_str :: "string \<Rightarrow> string" where
  "c_str s = takeWhile (\<lambda>c. c \<noteq> NUL) s"

definition new_HumdrumToken_cstr :: "HumdrumToken \<Rightarrow> string \<Rightarrow> HumdrumToken" where
  "new_HumdrumToken_cstr blank s = blank\<lparr>tok_string := c_str s\<rparr>"

text \<open>
  Modelled from the spec: the owning \<^verbatim>\<open>HumdrumFile\<close> (its source is not among the
  sources), as far as a line looks into it: the value of \<^verbatim>\<open>getScoreDuration()\<close>.
\<close>

record HumdrumFile =
  scoreDuration :: HumNum

text \<open>
  The members of a \<^verbatim>\<open>HumdrumLine\<close>. \<open>m_tokens\<close> is a vector of pointers: \<open>None\<close> is
  the null pointer. \<open>m_owner\<close> is \<open>None\<close> for \<^verbatim>\<open>NULL\<close>.
\<close>

record HumdrumLine =
  line_string :: string
  m_tokens :: "HumdrumToken option list"
  m_tabs :: "int list"
  m_lineindex :: int
  m_duration :: HumNum
  m_durationFromStart :: HumNum
  m_durationFromBarline :: HumNum
  m_durationToBarline :: HumNum
  m_rhythm_analyzed :: bool
  m_owner :: "HumdrumFile option"

subsection \<open>Character access\<close>

definition getChar :: "HumdrumLine \<Rightarrow> int \<Rightarrow> error + char" where
  "getChar line index =
     (if index < 0 then Inr NUL
      else if index \<ge> int (length (line_string line)) then Inr NUL
      else subscript (line_string line) index)"

definition equalChar :: "HumdrumLine \<Rightarrow> int \<Rightarrow> char \<Rightarrow> error + bool" where
  "equalChar line index ch =
     (if int (length (line_string line)) \<le> index then Inr False
      else if index < 0 then Inr False
      else (case subscript (line_string line) index of
              Inl e \<Rightarrow> Inl e
            | Inr c \<Rightarrow> if c = ch then Inr True else Inr False))"

subsection \<open>Line classification\<close>

text \<open>
  The classification functions return a \<^verbatim>\<open>bool\<close>; each holds when its C++ expression
  evaluates, without failure, to \<^verbatim>\<open>true\<close>.
\<close>

definition isComment :: "HumdrumLine \<Rightarrow> bool" where
  "isComment line = (equalChar line 0 (CHR ''!'') = Inr True)"

definition isCommentLocal :: "HumdrumLine \<Rightarrow> bool" where
  "isCommentLocal line =
     (equalChar line 0 (CHR ''!'') = Inr True \<and> equalChar line 1 (CHR ''!'') = Inr False)"

definition isCommentGlobal :: "HumdrumLine \<Rightarrow> bool" where
  "isCommentGlobal line =
     (equalChar line 0 (CHR ''!'') = Inr True \<and> equalChar line 1 (CHR ''!'') = Inr True)"

definition isInterp :: "HumdrumLine \<Rightarrow> bool" where
  "isInterp line = (equalChar line 0 (CHR ''*'') = Inr True)"

definition isBarline :: "HumdrumLine \<Rightarrow> bool" where
  "isBarline line = (equalChar line 0 (CHR ''='') = Inr True)"

definition isEmpty :: "HumdrumLine \<Rightarrow> bool" where
  "isEmpty line = (if length (line_string line) = 0 then True else False)"

definition isData :: "HumdrumLine \<Rightarrow> bool" where
  "isData line =
     (if isComment line \<or> isInterp line \<or> isBarline line \<or> isEmpty line then False else True)"

definition hasSpines :: "HumdrumLine \<Rightarrow> bool" where
  "hasSpines line = (if isEmpty line \<or> isCommentGlobal line then False else True)"

definition isGlobal :: "HumdrumLine \<Rightarrow> bool" where
  "isGlobal line = (\<not> hasSpines line)"

subsection \<open>Reference records\<close>

text \<open>
  \<^verbatim>\<open>isGlobalReference\<close>: a line of the form \<^verbatim>\<open>!!!KEY: VALUE\<close>. \<^verbatim>\<open>compare(0, 3, "!!!")\<close>
  compares the first three characters (fewer when the line is shorter) with \<^verbatim>\<open>"!!!"\<close>.
  \<^verbatim>\<open>find\<close> returns \<^verbatim>\<open>string::npos\<close> as \<open>None\<close>.
\<close>

definition isGlobalReference :: "HumdrumLine \<Rightarrow> error + bool" where
  "isGlobalReference line =
     (let s = line_string line in
      if length s < 5 then Inr False
      else if take 3 s \<noteq> ''!!!'' then Inr False
      else (case string_at s 3 of
              Inl e \<Rightarrow> Inl e
            | Inr c3 \<Rightarrow>
                if c3 = CHR ''!'' then Inr False
                else (let spaceloc = string_find s (CHR '' '');
                          tabloc = string_find s TAB;
                          colloc = string_find s (CHR '':'')
                      in case colloc of
                           None \<Rightarrow> Inr False
                         | Some col \<Rightarrow>
                             if spaceloc \<noteq> None \<and> the spaceloc < col then Inr False
                             else if tabloc \<noteq> None \<and> the tabloc < col then Inr False
                             else Inr True)))"

definition isUniversalReference :: "HumdrumLine \<Rightarrow> error + bool" where
  "isUniversalReference line =
     (let s = line_string line in
      if length s < 5 then Inr False
      else if take 4 s \<noteq> ''!!!!'' then Inr False
      else (case subscript s 4 of
              Inl e \<Rightarrow> Inl e
            | Inr c4 \<Rightarrow>
                if c4 = CHR ''!'' then Inr False
                else (let spaceloc = string_find s (CHR '' '');
                          tabloc = string_find s TAB;
                          colloc = string_find s (CHR '':'')
                      in case colloc of
                           None \<Rightarrow> Inr False
                         | Some col \<Rightarrow>
                             if spaceloc \<noteq> None \<and> the spaceloc < col then Inr False
                             else if tabloc \<noteq> None \<and> the tabloc < col then Inr False
                             else Inr True)))"

text \<open>
  \<^verbatim>\<open>isReference\<close>: \<^verbatim>\<open>isGlobalReference() || isUniversalReference()\<close>.
\<close>

definition isReference :: "HumdrumLine \<Rightarrow> error + bool" where
  "isReference line =
     (case isGlobalReference line of
        Inl e \<Rightarrow> Inl e
      | Inr True \<Rightarrow> Inr True
      | Inr False \<Rightarrow> isUniversalReference line)"

text \<open>
  The loop that skips white space in front of a key or a value:
  \<^verbatim>\<open>for (int i=index; i<bound; i++) { if (isspace(this->at(i))) { index++; continue; } break; }\<close>
  It returns the final \<open>index\<close>.
\<close>

function skip_space :: "string \<Rightarrow> int \<Rightarrow> int \<Rightarrow> int \<Rightarrow> error + int" where
  "skip_space s bound i index =
     (if i < bound then
        (case string_at s i of
           Inl e \<Rightarrow> Inl e
         | Inr c \<Rightarrow> if isspace c then skip_space s bound (i + 1) (index + 1) else Inr index)
      else Inr index)"
  by pat_completeness auto
termination
  by (relation "measure (\<lambda>(s, bound, i, index). nat (bound - i))") auto

text \<open>
  The loop that trims a key, walking \<open>i\<close> down from the last position:
  \<^verbatim>\<open>if (isspace(output.at(i))) { output.resize((int)output.size() - 1); }\<close>
  It has no \<^verbatim>\<open>break\<close>: every white-space character met, wherever it stands, removes
  the last character of \<open>output\<close>.
\<close>

function trim_key :: "string \<Rightarrow> int \<Rightarrow> error + string" where
  "trim_key output i =
     (if i \<ge> 0 then
        (case string_at output i of
           Inl e \<Rightarrow> Inl e
         | Inr c \<Rightarrow> if isspace c then trim_key (butlast output) (i - 1)
                    else trim_key output (i - 1))
      else Inr output)"
  by pat_completeness auto
termination
  by (relation "measure (\<lambda>(output, i). nat (i + 1))") auto

text \<open>
  The loop that trims a value stops at the first character that is not white space:
  \<^verbatim>\<open>if (isspace(output.at(i))) { output.resize((int)output.size() - 1); continue; } break;\<close>
\<close>

function trim_value :: "string \<Rightarrow> int \<Rightarrow> error + string" where
  "trim_value output i =
     (if i \<ge> 0 then
        (case string_at output i of
           Inl e \<Rightarrow> Inl e
         | Inr c \<Rightarrow> if isspace c then trim_value (butlast output) (i - 1) else Inr output)
      else Inr output)"
  by pat_completeness auto
termination
  by (relation "measure (\<lambda>(output, i). nat (i + 1))") auto

definition getGlobalReferenceKey :: "HumdrumLine \<Rightarrow> error + string" where
  "getGlobalReferenceKey line =
     (let s = line_string line in
      if length s < 5 then Inr []
      else if take 3 s \<noteq> ''!!!'' then Inr []
      else (case subscript s 3 of
              Inl e \<Rightarrow> Inl e
            | Inr c3 \<Rightarrow>
                if c3 = CHR ''!'' then Inr []
                else (case string_find s (CHR '':'') of
                        None \<Rightarrow> Inr []
                      | Some colloc \<Rightarrow>
                          (case skip_space s (int colloc) 3 3 of
                             Inl e \<Rightarrow> Inl e
                           | Inr index \<Rightarrow>
                               if index \<ge> int colloc then Inr []
                               else (case substr s index (int colloc - index) of
                                       Inl e \<Rightarrow> Inl e
                                     | Inr output \<Rightarrow>
                                         trim_key output (int (length output) - 1))))))"

definition getUniversalReferenceKey :: "HumdrumLine \<Rightarrow> error + string" where
  "getUniversalReferenceKey line =
     (let s = line_string line in
      if length s < 6 then Inr []
      else if take 4 s \<noteq> ''!!!!'' then Inr []
      else (case subscript s 4 of
              Inl e \<Rightarrow> Inl e
            | Inr c4 \<Rightarrow>
                if c4 = CHR ''!'' then Inr []
                else (case string_find s (CHR '':'') of
                        None \<Rightarrow> Inr []
                      | Some colloc \<Rightarrow>
                          (case skip_space s (int colloc) 4 4 of
                             Inl e \<Rightarrow> Inl e
                           | Inr index \<Rightarrow>
                               if index \<ge> int colloc then Inr []
                               else (case substr s index (int colloc - index) of
                                       Inl e \<Rightarrow> Inl e
                                     | Inr output \<Rightarrow>
                                         trim_key output (int (length output) - 1))))))"

text \<open>
  \<^verbatim>\<open>getGlobalReferenceValue\<close> tests the character at position 4 (not 3) against
  \<^verbatim>\<open>'!'\<close>, as the source does.
\<close>

definition getGlobalReferenceValue :: "HumdrumLine \<Rightarrow> error + string" where
  "getGlobalReferenceValue line =
     (let s = line_string line in
      if length s < 6 then Inr []
      else if take 3 s \<noteq> ''!!!'' then Inr []
      else (case subscript s 4 of
              Inl e \<Rightarrow> Inl e
            | Inr c4 \<Rightarrow>
                if c4 = CHR ''!'' then Inr []
                else (case string_find s (CHR '':'') of
                        None \<Rightarrow> Inr []
                      | Some colloc \<Rightarrow>
                          (case skip_space s (int (length s)) (int colloc + 1) (int colloc + 1) of
                             Inl e \<Rightarrow> Inl e
                           | Inr index \<Rightarrow>
                               if index \<ge> int (length s) then Inr []
                               else (case substr_from s index of
                                       Inl e \<Rightarrow> Inl e
                                     | Inr output \<Rightarrow>
                                         trim_value output (int (length output) - 1))))))"

definition getUniversalReferenceValue :: "HumdrumLine \<Rightarrow> error + string" where
  "getUniversalReferenceValue line =
     (let s = line_string line in
      if length s < 6 then Inr []
      else if take 4 s \<noteq> ''!!!!'' then Inr []
      else (case subscript s 4 of
              Inl e \<Rightarrow> Inl e
            | Inr c4 \<Rightarrow>
                if c4 = CHR ''!'' then Inr []
                else (case string_find s (CHR '':'') of
                        None \<Rightarrow> Inr []
                      | Some colloc \<Rightarrow>
                          (case skip_space s (int (length s)) (int colloc + 1) (int colloc + 1) of
                             Inl e \<Rightarrow> Inl e
                           | Inr index \<Rightarrow>
                               if index \<ge> int (length s) then Inr []
                               else (case substr_from s index of
                                       Inl e \<Rightarrow> Inl e
                                     | Inr output \<Rightarrow>
                                         trim_value output (int (length output) - 1))))))"

definition getReferenceKey :: "HumdrumLine \<Rightarrow> error + string" where
  "getReferenceKey line =
     (let s = line_string line in
      if length s < 4 then Inr []
      else if take 3 s \<noteq> ''!!!'' then Inr []
      else (case string_at s 3 of
              Inl e \<Rightarrow> Inl e
            | Inr c3 \<Rightarrow>
                if c3 \<noteq> CHR ''!'' then getGlobalReferenceKey line
                else getUniversalReferenceKey line))"

definition getReferenceValue :: "HumdrumLine \<Rightarrow> error + string" where
  "getReferenceValue line =
     (let s = line_string line in
      if length s < 4 then Inr []
      else if take 3 s \<noteq> ''!!!'' then Inr []
      else (case string_at s 3 of
              Inl e \<Rightarrow> Inl e
            | Inr c3 \<Rightarrow>
                if c3 \<noteq> CHR ''!'' then getGlobalReferenceValue line
                else getUniversalReferenceValue line))"

subsection \<open>Tokenizing a line\<close>

text \<open>
  The locals of \<^verbatim>\<open>createTokensFromLine\<close> and the two vectors it fills. \<open>lastch\<close> is
  assigned from \<open>ch\<close> at the top of every iteration, so only \<open>ch\<close> is carried.
\<close>

record tokenizer =
  tz_ch :: char
  tz_tstring :: string
  tz_tokens :: "HumdrumToken option list"
  tz_tabs :: "int list"

text \<open>
  The body of the loop, for the character \<open>c\<close> that \<^verbatim>\<open>getChar(i)\<close> returned.
  \<^verbatim>\<open>m_tabs.back()++\<close> is written on the last element.
\<close>

definition tokenize_char :: "HumdrumToken \<Rightarrow> char \<Rightarrow> tokenizer \<Rightarrow> tokenizer" where
  "tokenize_char blank c st =
     (let lastch = tz_ch st; ch = c in
      if ch = TAB then
        (if lastch \<noteq> TAB then
           st\<lparr>tz_ch := ch,
              tz_tokens := tz_tokens st @ [Some (new_HumdrumToken blank (tz_tstring st))],
              tz_tabs := tz_tabs st @ [1],
              tz_tstring := []\<rparr>
         else if length (tz_tabs st) > 0 then
           st\<lparr>tz_ch := ch, tz_tabs := butlast (tz_tabs st) @ [last (tz_tabs st) + 1]\<rparr>
         else st\<lparr>tz_ch := ch\<rparr>)
      else st\<lparr>tz_ch := ch, tz_tstring := tz_tstring st @ [ch]\<rparr>)"

text \<open>\<^verbatim>\<open>for (int i=0; i<(int)size(); i++) { lastch = ch; ch = getChar(i); ... }\<close>\<close>

function tokenize_loop ::
  "HumdrumToken \<Rightarrow> HumdrumLine \<Rightarrow> int \<Rightarrow> tokenizer \<Rightarrow> error + tokenizer" where
  "tokenize_loop blank line i st =
     (if i < int (length (line_string line)) then
        (case getChar line i of
           Inl e \<Rightarrow> Inl e
         | Inr c \<Rightarrow> tokenize_loop blank line (i + 1) (tokenize_char blank c st))
      else Inr st)"
  by pat_completeness auto
termination
  by (relation "measure (\<lambda>(blank, line, i, st). nat (int (length (line_string line)) - i))") auto

text \<open>
  \<^verbatim>\<open>createTokensFromLine\<close>: the old tokens are deleted and both vectors cleared; an
  empty line gets one empty token and then \<^verbatim>\<open>m_tokens.push_back(0)\<close>, a null pointer;
  a line starting with \<^verbatim>\<open>!!\<close> is one token (built from \<^verbatim>\<open>c_str()\<close>); any other line
  is cut at its tab runs. What is left in \<open>tstring\<close> is the last token. The function
  returns \<^verbatim>\<open>(int)m_tokens.size()\<close>, which is \<open>getTokenCount\<close> of the resulting line.
\<close>

definition createTokensFromLine :: "HumdrumToken \<Rightarrow> HumdrumLine \<Rightarrow> error + HumdrumLine" where
  "createTokensFromLine blank line =
     (let st0 = \<lparr>tz_ch = NUL, tz_tstring = [], tz_tokens = [], tz_tabs = []\<rparr> in
      case (if length (line_string line) = 0 then
              Inr (st0\<lparr>tz_tokens := [Some (new_HumdrumToken blank [])] @ [None]\<rparr>)
            else if take 2 (line_string line) = ''!!'' then
              Inr (st0\<lparr>tz_tokens := [Some (new_HumdrumToken_cstr blank (line_string line))],
                       tz_tabs := [0]\<rparr>)
            else tokenize_loop blank line 0 st0) of
        Inl e \<Rightarrow> Inl e
      | Inr st \<Rightarrow>
          (let st' = (if length (tz_tstring st) > 0 then
                        st\<lparr>tz_tokens := tz_tokens st @ [Some (new_HumdrumToken blank (tz_tstring st))],
                           tz_tabs := tz_tabs st @ [0],
                           tz_tstring := []\<rparr>
                      else st)
           in Inr (line\<lparr>m_tokens := tz_tokens st', m_tabs := tz_tabs st'\<rparr>)))"

definition getTokenCount :: "HumdrumLine \<Rightarrow> int" where
  "getTokenCount line = int (length (m_tokens line))"

subsection \<open>Rebuilding the text of a line from its tokens\<close>





subsection \<open>Constructors\<close>

text \<open>
  The three constructors assign \<open>m_owner\<close>, \<open>m_duration\<close> and \<open>m_durationFromStart\<close>;
  the string is initialised from the argument and the two vectors start empty. Every
  other member keeps what its own initialisation gave it (the class declaration that goes
  with this source file and \<^verbatim>\<open>HumNum\<close>'s default constructor are not among the
  sources): \<open>raw\<close> is the object as it stands before the constructor's body runs.
  \<^verbatim>\<open>setPrefix\<close> belongs to the \<^verbatim>\<open>HumHash\<close> base class, which is not modelled.
\<close>

definition HumdrumLine_void :: "HumdrumLine \<Rightarrow> HumdrumLine" where
  "HumdrumLine_void raw =
     raw\<lparr>line_string := [], m_tokens := [], m_tabs := [],
         m_owner := None, m_duration := -1, m_durationFromStart := -1\<rparr>"

definition HumdrumLine_string ::
  "HumdrumToken \<Rightarrow> HumdrumLine \<Rightarrow> string \<Rightarrow> error + HumdrumLine" where
  "HumdrumLine_string blank raw aString =
     (let line = raw\<lparr>line_string := aString, m_tokens := [], m_tabs := [], m_owner := None\<rparr>;
          line = (if length (line_string line) > 0 \<and> last (line_string line) = CR then
                    line\<lparr>line_string := take (length (line_string line) - 1) (line_string line)\<rparr>
                  else line);
          line = line\<lparr>m_duration := -1, m_durationFromStart := -1\<rparr>
      in createTokensFromLine blank line)"

text \<open>A \<^verbatim>\<open>const char*\<close> argument ends at its first NUL character.\<close>

definition HumdrumLine_cstr ::
  "HumdrumToken \<Rightarrow> HumdrumLine \<Rightarrow> string \<Rightarrow> error + HumdrumLine" where
  "HumdrumLine_cstr blank raw aString = HumdrumLine_string blank raw (c_str aString)"

subsection \<open>Duration accessors\<close>

text \<open>
  An accessor runs on the line and may call \<^verbatim>\<open>analyzeRhythmStructure()\<close> on the owning
  file, which is not among the sources: \<open>ars\<close> is what that call does to this line (its
  own members and, through \<open>m_owner\<close>, what it sees of the file). \<open>analyses\<close> counts the
  calls.
\<close>

record world =
  this :: HumdrumLine
  analyses :: nat

text \<open>
  The block every accessor starts with:
  \<^verbatim>\<open>if (!m_rhythm_analyzed) { if (getOwner()) { getOwner()->analyzeRhythmStructure(); } }\<close>
\<close>

definition rhythm_gate :: "(HumdrumLine \<Rightarrow> HumdrumLine) \<Rightarrow> world \<Rightarrow> world" where
  "rhythm_gate ars w =
     (if \<not> m_rhythm_analyzed (this w) then
        (if m_owner (this w) \<noteq> None then
           w\<lparr>this := ars (this w), analyses := Suc (analyses w)\<rparr>
         else w)
      else w)"

definition getDuration :: "(HumdrumLine \<Rightarrow> HumdrumLine) \<Rightarrow> world \<Rightarrow> HumNum \<times> world" where
  "getDuration ars w = (let w1 = rhythm_gate ars w in (m_duration (this w1), w1))"

definition getDurationFromStart :: "(HumdrumLine \<Rightarrow> HumdrumLine) \<Rightarrow> world \<Rightarrow> HumNum \<times> world" where
  "getDurationFromStart ars w =
     (let w1 = rhythm_gate ars w in (m_durationFromStart (this w1), w1))"

definition getDurationFromBarline :: "(HumdrumLine \<Rightarrow> HumdrumLine) \<Rightarrow> world \<Rightarrow> HumNum \<times> world" where
  "getDurationFromBarline ars w =
     (let w1 = rhythm_gate ars w in (m_durationFromBarline (this w1), w1))"

definition getDurationToBarline :: "(HumdrumLine \<Rightarrow> HumdrumLine) \<Rightarrow> world \<Rightarrow> HumNum \<times> world" where
  "getDurationToBarline ars w =
     (let w1 = rhythm_gate ars w in (m_durationToBarline (this w1), w1))"

text \<open>
  \<^verbatim>\<open>getDurationToEnd\<close>: the \<^verbatim>\<open>else { return 0; }\<close> belongs to the test of
  \<open>m_rhythm_analyzed\<close>; the last line reads the score duration through the owner
  pointer without testing it.
\<close>

definition getDurationToEnd ::
  "(HumdrumLine \<Rightarrow> HumdrumLine) \<Rightarrow> world \<Rightarrow> error + HumNum \<times> world" where
  "getDurationToEnd ars w =
     (if \<not> m_rhythm_analyzed (this w) then
        (let w1 = (if m_owner (this w) \<noteq> None then
                     w\<lparr>this := ars (this w), analyses := Suc (analyses w)\<rparr>
                   else w)
         in case m_owner (this w1) of
              None \<Rightarrow> Inl NullPointer
            | Some file \<Rightarrow> Inr (scoreDuration file - m_durationFromStart (this w1), w1))
      else Inr (0, w))"

text \<open>
  \<^verbatim>\<open>getBarlineDuration\<close>; the two operands of \<^verbatim>\<open>+\<close> are evaluated here from left
  to right.
\<close>

definition getBarlineDuration :: "(HumdrumLine \<Rightarrow> HumdrumLine) \<Rightarrow> world \<Rightarrow> HumNum \<times> world" where
  "getBarlineDuration ars w =
     (let w1 = rhythm_gate ars w in
      if isBarline (this w1) then getDurationToBarline ars w1
      else (let (a, w2) = getDurationFromBarline ars w1;
                (b, w3) = getDurationToBarline ars w2
            in (a + b, w3)))"

subsection \<open>Track and subtrack numbers\<close>

text \<open>The largest \<^verbatim>\<open>int\<close>.\<close>

definition INT_MAX :: int where
  "INT_MAX = 2147483647"

text \<open>
  The inner loop of the track scan, over the characters after the first digit:
  \<^verbatim>\<open>if (isdigit(info[k])) { track = track * 10 + (info[k] - '0'); } else { break; }\<close>
  A value beyond \<open>INT_MAX\<close> is a signed overflow.
\<close>

fun scan_digits :: "int \<Rightarrow> string \<Rightarrow> error + int" where
  "scan_digits track [] = Inr track"
| "scan_digits track (c # cs) =
     (if isdigit c then
        (if track * 10 + digit_value c > INT_MAX then Inl SignedOverflow
         else scan_digits (track * 10 + digit_value c) cs)
      else Inr track)"

text \<open>
  The outer loop, over the characters of the spine info: characters that are not digits
  are skipped, the first digit starts the number, and the loop ends after the number.
  Without a digit the track stays 0.
\<close>

fun scan_track :: "string \<Rightarrow> error + int" where
  "scan_track [] = Inr 0"
| "scan_track (c # cs) =
     (if \<not> isdigit c then scan_track cs else scan_digits (digit_value c) cs)"

text \<open>
  First loop of \<^verbatim>\<open>analyzeTracks\<close>: every token gets the track read from its spine
  info, and \<open>maxtrack\<close> follows the largest one.
\<close>

fun assign_tracks ::
  "HumdrumToken option list \<Rightarrow> int \<Rightarrow> error + HumdrumToken option list \<times> int" where
  "assign_tracks [] maxtrack = Inr ([], maxtrack)"
| "assign_tracks (None # toks) maxtrack = Inl NullPointer"
| "assign_tracks (Some tok # toks) maxtrack =
     (case scan_track (tok_spineInfo tok) of
        Inl e \<Rightarrow> Inl e
      | Inr track \<Rightarrow>
          (case assign_tracks toks (if maxtrack < track then track else maxtrack) of
             Inl e \<Rightarrow> Inl e
           | Inr (toks', maxtrack') \<Rightarrow> Inr (Some (tok\<lparr>tok_track := track\<rparr>) # toks', maxtrack')))"

text \<open>\<^verbatim>\<open>v[i]\<close> on a vector of \<^verbatim>\<open>int\<close>, read and written.\<close>

definition vector_get :: "int list \<Rightarrow> int \<Rightarrow> error + int" where
  "vector_get v i = (if 0 \<le> i \<and> i < int (length v) then Inr (v ! nat i) else Inl OutOfBounds)"

definition vector_incr :: "int list \<Rightarrow> int \<Rightarrow> error + int list" where
  "vector_incr v i =
     (if 0 \<le> i \<and> i < int (length v) then Inr (v[nat i := v ! nat i + 1]) else Inl OutOfBounds)"

text \<open>Second loop: \<^verbatim>\<open>subtracks[m_tokens[i]->getTrack()]++\<close>.\<close>

fun count_tracks :: "HumdrumToken option list \<Rightarrow> int list \<Rightarrow> error + int list" where
  "count_tracks [] subtracks = Inr subtracks"
| "count_tracks (None # toks) subtracks = Inl NullPointer"
| "count_tracks (Some tok # toks) subtracks =
     (case vector_incr subtracks (tok_track tok) of
        Inl e \<Rightarrow> Inl e
      | Inr subtracks' \<Rightarrow> count_tracks toks subtracks')"

text \<open>
  Third loop: a token whose track is counted more than once gets the next subtrack number
  of that track (\<^verbatim>\<open>++cursub[track]\<close>), any other token gets 0; the count is stored too.
\<close>

fun assign_subtracks ::
  "HumdrumToken option list \<Rightarrow> int list \<Rightarrow> int list \<Rightarrow> error + HumdrumToken option list" where
  "assign_subtracks [] subtracks cursub = Inr []"
| "assign_subtracks (None # toks) subtracks cursub = Inl NullPointer"
| "assign_subtracks (Some tok # toks) subtracks cursub =
     (let track = tok_track tok in
      case vector_get subtracks track of
        Inl e \<Rightarrow> Inl e
      | Inr subtrack \<Rightarrow>
          (if subtrack > 1 then
             (case vector_incr cursub track of
                Inl e \<Rightarrow> Inl e
              | Inr cursub' \<Rightarrow>
                  (case vector_get cursub' track of
                     Inl e \<Rightarrow> Inl e
                   | Inr n \<Rightarrow>
                       (case assign_subtracks toks subtracks cursub' of
                          Inl e \<Rightarrow> Inl e
                        | Inr toks' \<Rightarrow>
                            Inr (Some (tok\<lparr>tok_subtrack := n, tok_subtrackCount := subtrack\<rparr>)
                                 # toks'))))
           else
             (case assign_subtracks toks subtracks cursub of
                Inl e \<Rightarrow> Inl e
              | Inr toks' \<Rightarrow>
                  Inr (Some (tok\<lparr>tok_subtrack := 0, tok_subtrackCount := subtrack\<rparr>) # toks'))))"

text \<open>
  \<^verbatim>\<open>analyzeTracks(err)\<close>: nothing is done on a line without spines. Both vectors have
  \<open>maxtrack + 1\<close> entries 0. The result is \<^verbatim>\<open>!err.size()\<close>; the function never writes
  to \<open>err\<close>.
\<close>

definition analyzeTracks :: "string \<Rightarrow> HumdrumLine \<Rightarrow> error + bool \<times> HumdrumLine" where
  "analyzeTracks err line =
     (if \<not> hasSpines line then Inr (length err = 0, line)
      else
        (case assign_tracks (m_tokens line) 0 of
           Inl e \<Rightarrow> Inl e
         | Inr (toks1, maxtrack) \<Rightarrow>
             (if maxtrack + 1 > INT_MAX then Inl SignedOverflow
              else
                (let subtracks0 = replicate (nat (maxtrack + 1)) 0;
                     cursub0 = replicate (nat (maxtrack + 1)) 0
                 in case count_tracks toks1 subtracks0 of
                      Inl e \<Rightarrow> Inl e
                    | Inr subtracks \<Rightarrow>
                        (case assign_subtracks toks1 subtracks cursub0 of
                           Inl e \<Rightarrow> Inl e
                         | Inr toks2 \<Rightarrow> Inr (length err = 0, line\<lparr>m_tokens := toks2\<rparr>))))))"

subsection \<open>Reading the claims\<close>

text \<open>
  The number written by a string of decimal digits, and the first run of decimal digits
  of a string: the words in which the track of a token is described.
\<close>

definition decimal :: "string \<Rightarrow> int" where
  "decimal ds = foldl (\<lambda>acc c. acc * 10 + digit_value c) 0 ds"

definition first_digit_run :: "string \<Rightarrow> string" where
  "first_digit_run s = takeWhile isdigit (dropWhile (\<lambda>c. \<not> isdigit c) s)"


text \<open>A line that holds a text and nothing else yet.\<close>

definition text_line :: "string \<Rightarrow> HumdrumLine" where
  "text_line s =
     \<lparr>line_string = s, m_tokens = [], m_tabs = [], m_lineindex = 0,
      m_duration = -1, m_durationFromStart = -1, m_durationFromBarline = 0,
      m_durationToBarline = 0, m_rhythm_analyzed = False, m_owner = None\<rparr>"

text \<open>A token with empty text and spine info, and no track yet.\<close>

definition blank_token :: HumdrumToken where
  "blank_token =
     \<lparr>tok_string = [], tok_spineInfo = [], tok_track = -1, tok_subtrack = -1,
      tok_subtrackCount = 0\<rparr>"

text \<open>
  The lines claim C7 speaks of: the text begins with \<^verbatim>\<open>!!!\<close> followed by a character
  other than \<^verbatim>\<open>!\<close>.
\<close>

definition reference_shape :: "string \<Rightarrow> bool" where
  "reference_shape s = (take 3 s = ''!!!'' \<and> 3 < length s \<and> s ! 3 \<noteq> CHR ''!'')"

text \<open>
  "The first colon appears before any non-whitespace key text": the line has a colon, and
  between the \<^verbatim>\<open>!!!\<close> and the first colon there is nothing but white space.
\<close>

definition colon_before_key_text :: "string \<Rightarrow> bool" where
  "colon_before_key_text s =
     (case string_find s (CHR '':'') of
        None \<Rightarrow> False
      | Some col \<Rightarrow> list_all isspace (take (col - 3) (drop 3 s)))"

text \<open>A space or a tab stands before the first colon of the line.\<close>

definition blank_before_colon :: "string \<Rightarrow> bool" where
  "blank_before_colon s =
     (case string_find s (CHR '':'') of
        None \<Rightarrow> False
      | Some col \<Rightarrow> list_ex (\<lambda>c. c = CHR '' '' \<or> c = TAB) (take col s))"

text \<open>
  An object before the body of its constructor runs, in which every \<^verbatim>\<open>HumNum\<close> member
  has the value \<open>d\<close>.
\<close>

definition raw_line :: "HumNum \<Rightarrow> HumdrumLine" where
  "raw_line d =
     \<lparr>line_string = [], m_tokens = [], m_tabs = [], m_lineindex = 0,
      m_duration = d, m_durationFromStart = d, m_durationFromBarline = d,
      m_durationToBarline = d, m_rhythm_analyzed = False, m_owner = None\<rparr>"

subsection \<open>The tokenizer as a function of the text\<close>

text \<open>
  The parts of \<open>createTokensFromLine\<close>, named for the proofs: the locals at the start,
  the loop as a fold over the text, the last token, and the three branches together.
\<close>

definition tokenizer_start :: tokenizer where
  "tokenizer_start = \<lparr>tz_ch = NUL, tz_tstring = [], tz_tokens = [], tz_tabs = []\<rparr>"

definition scan_text :: "HumdrumToken \<Rightarrow> string \<Rightarrow> tokenizer" where
  "scan_text blank s = foldl (\<lambda>st c. tokenize_char blank c st) tokenizer_start s"

definition flush_token :: "HumdrumToken \<Rightarrow> tokenizer \<Rightarrow> tokenizer" where
  "flush_token blank st =
     (if length (tz_tstring st) > 0 then
        st\<lparr>tz_tokens := tz_tokens st @ [Some (new_HumdrumToken blank (tz_tstring st))],
           tz_tabs := tz_tabs st @ [0],
           tz_tstring := []\<rparr>
      else st)"

definition split_text :: "HumdrumToken \<Rightarrow> string \<Rightarrow> tokenizer" where
  "split_text blank s =
     flush_token blank
       (if length s = 0 then
          tokenizer_start\<lparr>tz_tokens := [Some (new_HumdrumToken blank [])] @ [None]\<rparr>
        else if take 2 s = ''!!'' then
          tokenizer_start\<lparr>tz_tokens := [Some (new_HumdrumToken_cstr blank s)], tz_tabs := [0]\<rparr>
        else scan_text blank s)"

subsection \<open>Tracks and subtracks in the words of the claim\<close>

text \<open>
  The track a token should get: the number written by the first run of decimal digits of
  its spine info (0 when there is none).
\<close>

definition track_of :: "HumdrumToken \<Rightarrow> int" where
  "track_of tok = decimal (first_digit_run (tok_spineInfo tok))"

text \<open>The tracks of the tokens of a line, from left to right.\<close>

definition line_tracks :: "HumdrumLine \<Rightarrow> int list" where
  "line_tracks line =
     map (\<lambda>t. case t of None \<Rightarrow> 0 | Some tok \<Rightarrow> track_of tok) (m_tokens line)"

text \<open>
  The subtrack of the token at position \<open>i\<close>, given the tracks of the line: when its track
  occurs more than once, its rank among the tokens of that track counted from the left
  (1 for the first), otherwise 0.
\<close>

definition subtrack_of :: "int list \<Rightarrow> nat \<Rightarrow> int" where
  "subtrack_of tracks i =
     (if count_list tracks (tracks ! i) > 1
      then int (count_list (take (Suc i) tracks) (tracks ! i))
      else 0)"

text \<open>
  Two lines to run the analysis on: a data line whose first two tokens are the two
  subspines of track 1, and a global comment with its one token.
\<close>

definition split_line :: HumdrumLine where
  "split_line =
     (text_line [CHR ''4'', CHR ''c'', TAB, CHR ''4'', CHR ''e'', TAB, CHR ''4'', CHR ''g''])
       \<lparr>m_tokens :=
          [Some (blank_token\<lparr>tok_string := ''4c'', tok_spineInfo := ''(1)a''\<rparr>),
           Some (blank_token\<lparr>tok_string := ''4e'', tok_spineInfo := ''(1)b''\<rparr>),
           Some (blank_token\<lparr>tok_string := ''4g'', tok_spineInfo := ''2''\<rparr>)],
        m_tabs := [1, 1, 0]\<rparr>"

definition comment_line :: HumdrumLine where
  "comment_line =
     (text_line ''!!x'')\<lparr>m_tokens := [Some (blank_token\<lparr>tok_string := ''!!x''\<rparr>)],
        m_tabs := [0]\<rparr>"

text \<open>
  For the proofs: the token after the first loop of \<open>analyzeTracks\<close>, and the track a
  token holds (0 stands in for a null pointer, which holds none).
\<close>

definition set_track :: "HumdrumToken option \<Rightarrow> HumdrumToken option" where
  "set_track t = map_option (\<lambda>tok. tok\<lparr>tok_track := track_of tok\<rparr>) t"

definition stored_track :: "HumdrumToken option \<Rightarrow> int" where
  "stored_track t = (case t of None \<Rightarrow> 0 | Some tok \<Rightarrow> tok_track tok)"

subsection \<open>The round trip through the text\<close>




section \<open>Properties\<close>

declare skip_space.simps [simp del]
declare trim_key.simps [simp del]
declare trim_value.simps [simp del]

subsection \<open>Character access\<close>

text \<open>
  Claim C10. Character access on a line is total and stays inside the string: for every
  integer index, \<open>getChar\<close> returns NUL when the index is negative or at least the length
  of the line and the character at that position otherwise, and \<open>equalChar\<close> returns
  false for every index out of range. Both always return (\<open>Inr\<close>): the subscript on the
  underlying string, which is the one operation that could leave the string, never does.
\<close>

theorem char_access_in_bounds:
  "getChar line index =
     Inr (if index < 0 \<or> index \<ge> int (length (line_string line)) then NUL
          else line_string line ! nat index)
   \<and> equalChar line index ch =
     Inr (0 \<le> index \<and> index < int (length (line_string line))
          \<and> line_string line ! nat index = ch)
   \<and> ((index < 0 \<or> index \<ge> int (length (line_string line)))
        \<longrightarrow> equalChar line index ch = Inr False)"
  by (auto simp add: getChar_def equalChar_def subscript_def)

theorem char_access_in_bounds_witness:
  "getChar (text_line ''ab'') 5 = Inr NUL
   \<and> getChar (text_line ''ab'') (- 1) = Inr NUL
   \<and> getChar (text_line ''ab'') 1 = Inr (CHR ''b'')
   \<and> equalChar (text_line ''ab'') 5 (CHR ''b'') = Inr False
   \<and> equalChar (text_line ''ab'') 1 (CHR ''b'') = Inr True"
  using char_access_in_bounds [of "text_line ''ab''" 5 "CHR ''b''"]
        char_access_in_bounds [of "text_line ''ab''" "- 1" "CHR ''b''"]
        char_access_in_bounds [of "text_line ''ab''" 1 "CHR ''b''"]
  by (simp add: text_line_def)

subsection \<open>Classification\<close>

text \<open>
  Claim C3. For every line exactly one of the five classifications comment, interpretation,
  barline, data and empty holds; \<open>isGlobal\<close> is the negation of \<open>hasSpines\<close>; and
  \<open>hasSpines\<close> is false exactly for empty lines and global comments.
\<close>

theorem classification_exclusive:
  "length (filter id [isComment l, isInterp l, isBarline l, isData l, isEmpty l]) = 1
   \<and> isGlobal l = (\<not> hasSpines l)
   \<and> (\<not> hasSpines l) = (isEmpty l \<or> isCommentGlobal l)"
  by (cases "line_string l")
     (auto simp: isComment_def isInterp_def isBarline_def isData_def isEmpty_def
        equalChar_def subscript_def isGlobal_def hasSpines_def)

theorem classification_exclusive_witness:
  "isBarline (text_line ''=1'') \<and> \<not> isComment (text_line ''=1'')
   \<and> \<not> isInterp (text_line ''=1'') \<and> \<not> isData (text_line ''=1'')
   \<and> \<not> isEmpty (text_line ''=1'') \<and> hasSpines (text_line ''=1'')
   \<and> \<not> isGlobal (text_line ''=1'')"
  using classification_exclusive [of "text_line ''=1''"]
  by (simp add: text_line_def isBarline_def isComment_def isInterp_def isData_def
        isEmpty_def equalChar_def subscript_def isCommentGlobal_def)

subsection \<open>Reference records\<close>

lemma scenario_C_text:
  "isGlobalReference (text_line ''!!!OTL: Title'') = Inr True
   \<and> getReferenceKey (text_line ''!!!OTL: Title'') = Inr ''OTL''
   \<and> getReferenceValue (text_line ''!!!OTL: Title'') = Inr ''Title''
   \<and> hasSpines (text_line ''!!!OTL: Title'') = False"
  by code_simp

text \<open>The functions on reference records read nothing of a line but its text.\<close>

lemma reference_parts_frame:
  "getGlobalReferenceKey line = getGlobalReferenceKey (text_line (line_string line))"
  "getUniversalReferenceKey line = getUniversalReferenceKey (text_line (line_string line))"
  "getGlobalReferenceValue line = getGlobalReferenceValue (text_line (line_string line))"
  "getUniversalReferenceValue line = getUniversalReferenceValue (text_line (line_string line))"
  by (simp_all add: getGlobalReferenceKey_def getUniversalReferenceKey_def
      getGlobalReferenceValue_def getUniversalReferenceValue_def text_line_def)

lemma reference_frame:
  "isGlobalReference line = isGlobalReference (text_line (line_string line))"
  "getReferenceKey line = getReferenceKey (text_line (line_string line))"
  "getReferenceValue line = getReferenceValue (text_line (line_string line))"
  "hasSpines line = hasSpines (text_line (line_string line))"
proof -
  show "isGlobalReference line = isGlobalReference (text_line (line_string line))"
    by (simp add: isGlobalReference_def text_line_def)
  show "getReferenceKey line = getReferenceKey (text_line (line_string line))"
    unfolding getReferenceKey_def
    by (subst reference_parts_frame(1), subst reference_parts_frame(2))
       (simp add: text_line_def)
  show "getReferenceValue line = getReferenceValue (text_line (line_string line))"
    unfolding getReferenceValue_def
    by (subst reference_parts_frame(3), subst reference_parts_frame(4))
       (simp add: text_line_def)
  show "hasSpines line = hasSpines (text_line (line_string line))"
    by (simp add: hasSpines_def isEmpty_def isCommentGlobal_def equalChar_def text_line_def)
qed

text \<open>
  Claim C6 (scenario C). For the line \<^verbatim>\<open>!!!OTL: Title\<close>, \<open>isGlobalReference\<close> returns
  true, \<open>getReferenceKey\<close> returns \<^verbatim>\<open>OTL\<close>, \<open>getReferenceValue\<close> returns \<^verbatim>\<open>Title\<close>
  (the space after the colon is trimmed), and \<open>hasSpines\<close> returns false.
\<close>

theorem scenario_C:
  "line_string line = ''!!!OTL: Title'' \<Longrightarrow>
   isGlobalReference line = Inr True
   \<and> getReferenceKey line = Inr ''OTL''
   \<and> getReferenceValue line = Inr ''Title''
   \<and> hasSpines line = False"
  using scenario_C_text
  by (subst reference_frame(1), subst reference_frame(2), subst reference_frame(3),
      subst reference_frame(4)) simp

theorem scenario_C_witness:
  "line_string (text_line ''!!!OTL: Title'') = ''!!!OTL: Title''
   \<and> isGlobalReference (text_line ''!!!OTL: Title'') = Inr True
   \<and> getReferenceKey (text_line ''!!!OTL: Title'') = Inr ''OTL''
   \<and> getReferenceValue (text_line ''!!!OTL: Title'') = Inr ''Title''
   \<and> hasSpines (text_line ''!!!OTL: Title'') = False"
  using scenario_C [of "text_line ''!!!OTL: Title''"] by (simp add: text_line_def)

subsection \<open>Tokenizing\<close>

declare tokenize_loop.simps [simp del]

text \<open>
  The loop of the tokenizer never fails, and it is the fold of its body over the
  characters of the line from position \<open>i\<close> on.
\<close>

lemma tokenize_loop_fold:
  "0 \<le> i \<Longrightarrow>
   tokenize_loop blank line i st =
     Inr (foldl (\<lambda>st c. tokenize_char blank c st) st (drop (nat i) (line_string line)))"
proof (induction blank line i st rule: tokenize_loop.induct)
  case (1 blank line i st)
  show ?case
  proof (cases "i < int (length (line_string line))")
    case True
    with "1.prems" have g: "getChar line i = Inr (line_string line ! nat i)"
      by (simp add: getChar_def subscript_def)
    from True "1.prems" have d: "drop (nat i) (line_string line) =
        line_string line ! nat i # drop (nat (i + 1)) (line_string line)"
      by (simp add: Cons_nth_drop_Suc nat_add_distrib)
    have "tokenize_loop blank line i st =
        tokenize_loop blank line (i + 1) (tokenize_char blank (line_string line ! nat i) st)"
      using True g by (subst tokenize_loop.simps) simp
    also have "\<dots> = Inr (foldl (\<lambda>st c. tokenize_char blank c st)
        (tokenize_char blank (line_string line ! nat i) st)
        (drop (nat (i + 1)) (line_string line)))"
      using "1.IH" [OF True g] "1.prems" by simp
    finally show ?thesis by (simp add: d)
  next
    case False
    then show ?thesis using "1.prems" by (subst tokenize_loop.simps) simp
  qed
qed

text \<open>
  Claim C2. Tokenizing an empty line should give exactly one token, with empty text, and
  no null entry. The code pushes the empty token and then a null pointer onto \<open>m_tokens\<close>
  (where the branch for global comments pushes a width onto \<open>m_tabs\<close>): the token list
  of an empty line has two entries, the second of which is null, and \<open>m_tabs\<close> stays
  empty.
\<close>

theorem empty_line_tokens:
  "createTokensFromLine blank (line\<lparr>line_string := []\<rparr>) =
     Inr (line\<lparr>line_string := [],
              m_tokens := [Some (new_HumdrumToken blank []), None], m_tabs := []\<rparr>)
   \<and> getTokenCount (line\<lparr>line_string := [],
              m_tokens := [Some (new_HumdrumToken blank []), None], m_tabs := []\<rparr>) = 2"
  by (simp add: createTokensFromLine_def getTokenCount_def)

subsection \<open>Malformed reference records\<close>

text \<open>\<^verbatim>\<open>find\<close> meets a character that occurs among the first \<open>n\<close> before position \<open>n\<close>.\<close>

lemma find_from_take:
  "c \<in> set (take n s) \<Longrightarrow> \<exists>p. find_from pos c s = Some p \<and> p < pos + n"
proof (induction s arbitrary: pos n)
  case Nil
  then show ?case by simp
next
  case (Cons x xs)
  show ?case
  proof (cases "x = c")
    case True
    with Cons.prems show ?thesis by (cases n) auto
  next
    case False
    with Cons.prems obtain m where n: "n = Suc m" and c: "c \<in> set (take m xs)"
      by (cases n) auto
    from Cons.IH [OF c, of "Suc pos"] False n show ?thesis by auto
  qed
qed

lemma string_find_take:
  "c \<in> set (take n s) \<Longrightarrow> \<exists>p. string_find s c = Some p \<and> p < n"
  using find_from_take [of c n s 0] by (simp add: string_find_def)

lemma isGlobalReference_total: "\<exists>b. isGlobalReference line = Inr b"
  by (auto simp: isGlobalReference_def string_at_def Let_def split: option.splits)

lemma isUniversalReference_shape:
  "reference_shape (line_string line) \<Longrightarrow> isUniversalReference line = Inr False"
proof -
  assume r: "reference_shape (line_string line)"
  then have "take 4 (line_string line) \<noteq> ''!!!!''"
    by (auto simp: reference_shape_def take_Suc_conv_app_nth numeral_eq_Suc)
  then show ?thesis by (simp add: isUniversalReference_def Let_def)
qed

lemma isCommentGlobal_shape:
  "reference_shape (line_string line) \<Longrightarrow> isCommentGlobal line"
  by (cases "line_string line"; cases "tl (line_string line)")
     (auto simp: reference_shape_def isCommentGlobal_def equalChar_def subscript_def)

text \<open>Where \<open>string_find\<close> finds a character, and what the key loop skips.\<close>

lemma find_from_Some:
  "find_from pos c s = Some p \<Longrightarrow>
   pos \<le> p \<and> p - pos < length s \<and> s ! (p - pos) = c \<and> c \<notin> set (take (p - pos) s)"
proof (induction s arbitrary: pos)
  case Nil
  then show ?case by simp
next
  case (Cons x xs)
  show ?case
  proof (cases "x = c")
    case True
    with Cons.prems show ?thesis by simp
  next
    case False
    with Cons.prems have f: "find_from (Suc pos) c xs = Some p" by simp
    from Cons.IH [OF f] have a: "Suc pos \<le> p" "p - Suc pos < length xs"
      "xs ! (p - Suc pos) = c" "c \<notin> set (take (p - Suc pos) xs)" by auto
    from a(1) have e: "p - pos = Suc (p - Suc pos)" by simp
    show ?thesis using a False unfolding e by auto
  qed
qed

lemma string_find_Some:
  "string_find s c = Some p \<Longrightarrow> p < length s \<and> s ! p = c \<and> c \<notin> set (take p s)"
  using find_from_Some [of 0 c s p] by (simp add: string_find_def)

lemma string_find_before:
  "string_find s c = Some p \<Longrightarrow> p < n \<Longrightarrow> c \<in> set (take n s)"
proof -
  assume a: "string_find s c = Some p" and b: "p < n"
  from string_find_Some [OF a] have "p < length (take n s)" "take n s ! p = c"
    using b by simp_all
  then show ?thesis by (metis nth_mem)
qed

lemma skip_space_all:
  "0 \<le> i \<Longrightarrow> i \<le> bound \<Longrightarrow> bound \<le> int (length s) \<Longrightarrow>
   \<forall>j. i \<le> j \<and> j < bound \<longrightarrow> isspace (s ! nat j) \<Longrightarrow>
   skip_space s bound i index = Inr (index + (bound - i))"
proof (induction s bound i index rule: skip_space.induct)
  case (1 s bound i index)
  show ?case
  proof (cases "i < bound")
    case True
    with "1.prems" have at: "string_at s i = Inr (s ! nat i)" by (simp add: string_at_def)
    from True "1.prems" have sp: "isspace (s ! nat i)" by simp
    have "skip_space s bound i index = skip_space s bound (i + 1) (index + 1)"
      using True at sp by (subst skip_space.simps) simp
    also have "\<dots> = Inr (index + 1 + (bound - (i + 1)))"
      using True "1.prems" by (intro "1.IH" [OF True at sp]) auto
    finally show ?thesis by simp
  next
    case False
    with "1.prems" show ?thesis by (subst skip_space.simps) simp
  qed
qed

lemma reference_colon_position:
  "take 3 s = ''!!!'' \<Longrightarrow> string_find s (CHR '':'') = Some col \<Longrightarrow> 3 \<le> col \<and> col < length s"
proof -
  assume t: "take 3 s = ''!!!''" and f: "string_find s (CHR '':'') = Some col"
  from string_find_Some [OF f] have c: "col < length s" "s ! col = CHR '':''" by simp_all
  have "\<not> col < 3"
  proof
    assume "col < 3"
    then have "take 3 s ! col = s ! col" by simp
    with t c \<open>col < 3\<close> show False
      by (auto simp: less_Suc_eq numeral_3_eq_3)
  qed
  with c show ?thesis by simp
qed

text \<open>
  Claim C7, as amended. \<open>isGlobalReference\<close> always returns. For every line that begins
  with \<^verbatim>\<open>!!!\<close> followed by a character other than \<^verbatim>\<open>!\<close>, it returns true exactly when
  the line has at least 5 characters, has a colon, and has no space and no tab before its
  first colon. So if such a line has no colon, or a space or a tab stands before its first
  colon, or it has fewer than 5 characters, then \<open>isGlobalReference\<close> returns false, the
  line is no reference record at all, and it still is a global comment. A first colon
  before any key text does not by itself prevent the classification: if such a line has at
  least 5 characters and only white space other than a space or a tab, or nothing, stands
  between \<^verbatim>\<open>!!!\<close> and the first colon, the line is a global reference record, and its key
  is empty.
\<close>

theorem malformed_reference:
  "(\<exists>b. isGlobalReference line = Inr b)
   \<and> (reference_shape (line_string line)
      \<longrightarrow> isGlobalReference line =
            Inr (5 \<le> length (line_string line)
                 \<and> string_find (line_string line) (CHR '':'') \<noteq> None
                 \<and> \<not> blank_before_colon (line_string line)))
   \<and> (reference_shape (line_string line)
        \<and> (string_find (line_string line) (CHR '':'') = None
            \<or> blank_before_colon (line_string line)
            \<or> length (line_string line) < 5)
      \<longrightarrow> isGlobalReference line = Inr False \<and> isReference line = Inr False
          \<and> isCommentGlobal line)
   \<and> (reference_shape (line_string line) \<and> 5 \<le> length (line_string line)
        \<and> colon_before_key_text (line_string line)
        \<and> \<not> blank_before_colon (line_string line)
      \<longrightarrow> isGlobalReference line = Inr True \<and> getReferenceKey line = Inr [])"
proof -
  let ?s = "line_string line"
  have char: "isGlobalReference line =
            Inr (5 \<le> length ?s \<and> string_find ?s (CHR '':'') \<noteq> None \<and> \<not> blank_before_colon ?s)"
    if r: "reference_shape ?s"
  proof (cases "length ?s < 5")
    case True
    then show ?thesis by (simp add: isGlobalReference_def)
  next
    case len: False
    from r have t: "take 3 ?s = ''!!!''" "?s ! 3 \<noteq> CHR ''!''" by (simp_all add: reference_shape_def)
    from len have at: "string_at ?s 3 = Inr (?s ! 3)" by (simp add: string_at_def)
    show ?thesis
    proof (cases "string_find ?s (CHR '':'')")
      case None
      then show ?thesis using len t at by (simp add: isGlobalReference_def Let_def)
    next
      case (Some col)
      have sp: "(string_find ?s (CHR '' '') \<noteq> None \<and> the (string_find ?s (CHR '' '')) < col)
          = (CHR '' '' \<in> set (take col ?s))"
        using string_find_take [of "CHR '' ''" col ?s] string_find_before [of ?s "CHR '' ''" _ col]
        by auto
      have tb: "(string_find ?s TAB \<noteq> None \<and> the (string_find ?s TAB) < col)
          = (TAB \<in> set (take col ?s))"
        using string_find_take [of TAB col ?s] string_find_before [of ?s TAB _ col]
        by auto
      have bl: "blank_before_colon ?s = (CHR '' '' \<in> set (take col ?s) \<or> TAB \<in> set (take col ?s))"
        using Some by (auto simp: blank_before_colon_def list_ex_iff)
      have "isGlobalReference line =
          (if string_find ?s (CHR '' '') \<noteq> None \<and> the (string_find ?s (CHR '' '')) < col
           then Inr False
           else if string_find ?s TAB \<noteq> None \<and> the (string_find ?s TAB) < col then Inr False
           else Inr True)"
        using len t at Some by (simp add: isGlobalReference_def Let_def)
      then show ?thesis using len Some bl sp tb by auto
    qed
  qed
  have fls: "isGlobalReference line = Inr False \<and> isReference line = Inr False \<and> isCommentGlobal line"
    if h: "reference_shape ?s \<and> (string_find ?s (CHR '':'') = None \<or> blank_before_colon ?s
        \<or> length ?s < 5)"
  proof -
    from h char have g: "isGlobalReference line = Inr False" by auto
    moreover have "isReference line = Inr False"
      using g h by (simp add: isReference_def isUniversalReference_shape)
    moreover have "isCommentGlobal line" using h by (simp add: isCommentGlobal_shape)
    ultimately show ?thesis by simp
  qed
  have key: "isGlobalReference line = Inr True \<and> getReferenceKey line = Inr []"
    if h: "reference_shape ?s \<and> 5 \<le> length ?s \<and> colon_before_key_text ?s
        \<and> \<not> blank_before_colon ?s"
  proof -
    from h have r: "reference_shape ?s" and len: "5 \<le> length ?s" by simp_all
    from r have t: "take 3 ?s = ''!!!''" "?s ! 3 \<noteq> CHR ''!''" by (simp_all add: reference_shape_def)
    from h obtain col where col: "string_find ?s (CHR '':'') = Some col"
      and ws: "list_all isspace (take (col - 3) (drop 3 ?s))"
      by (auto simp: colon_before_key_text_def split: option.splits)
    from reference_colon_position [OF t(1) col] have c3: "3 \<le> col" "col < length ?s" by simp_all
    have g: "isGlobalReference line = Inr True" using char [OF r] h col len by simp
    have all: "\<forall>j. 3 \<le> j \<and> j < int col \<longrightarrow> isspace (?s ! nat j)"
    proof (intro allI impI)
      fix j :: int assume j: "3 \<le> j \<and> j < int col"
      then have "nat j - 3 < length (take (col - 3) (drop 3 ?s))" using c3 by auto
      with ws have "isspace (take (col - 3) (drop 3 ?s) ! (nat j - 3))"
        by (simp add: list_all_length)
      moreover have "take (col - 3) (drop 3 ?s) ! (nat j - 3) = ?s ! nat j"
        using j c3 by auto
      ultimately show "isspace (?s ! nat j)" by simp
    qed
    have sk: "skip_space ?s (int col) 3 3 = Inr (3 + (int col - 3))"
      using c3 all by (intro skip_space_all) auto
    have at: "string_at ?s 3 = Inr (?s ! 3)" "subscript ?s 3 = Inr (?s ! 3)"
      using len by (simp_all add: string_at_def subscript_def)
    have "getGlobalReferenceKey line = Inr []"
      using len t at col sk by (simp add: getGlobalReferenceKey_def Let_def)
    then have "getReferenceKey line = Inr []"
      using len t at by (simp add: getReferenceKey_def Let_def)
    with g show ?thesis by simp
  qed
  from isGlobalReference_total char fls key show ?thesis by blast
qed

theorem malformed_reference_witness:
  "reference_shape ''!!!O TL: x'' \<and> blank_before_colon ''!!!O TL: x''
   \<and> isGlobalReference (text_line ''!!!O TL: x'') = Inr False
   \<and> isReference (text_line ''!!!O TL: x'') = Inr False
   \<and> isCommentGlobal (text_line ''!!!O TL: x'')
   \<and> reference_shape ''!!!OTL'' \<and> string_find ''!!!OTL'' (CHR '':'') = None
   \<and> isGlobalReference (text_line ''!!!OTL'') = Inr False
   \<and> isReference (text_line ''!!!OTL'') = Inr False
   \<and> isCommentGlobal (text_line ''!!!OTL'')
   \<and> reference_shape ''!!!:'' \<and> length ''!!!:'' < 5
   \<and> isGlobalReference (text_line ''!!!:'') = Inr False
   \<and> isReference (text_line ''!!!:'') = Inr False
   \<and> isCommentGlobal (text_line ''!!!:'')
   \<and> reference_shape ''!!!OTL: x'' \<and> isGlobalReference (text_line ''!!!OTL: x'') = Inr True
   \<and> reference_shape [CHR ''!'', CHR ''!'', CHR ''!'', CHR 0x0B, CHR '':'', CHR ''y'']
   \<and> 5 \<le> length [CHR ''!'', CHR ''!'', CHR ''!'', CHR 0x0B, CHR '':'', CHR ''y'']
   \<and> colon_before_key_text [CHR ''!'', CHR ''!'', CHR ''!'', CHR 0x0B, CHR '':'', CHR ''y'']
   \<and> \<not> blank_before_colon [CHR ''!'', CHR ''!'', CHR ''!'', CHR 0x0B, CHR '':'', CHR ''y'']
   \<and> isGlobalReference
        (text_line [CHR ''!'', CHR ''!'', CHR ''!'', CHR 0x0B, CHR '':'', CHR ''y'']) = Inr True
   \<and> getReferenceKey
        (text_line [CHR ''!'', CHR ''!'', CHR ''!'', CHR 0x0B, CHR '':'', CHR ''y'']) = Inr []"
proof -
  have a: "reference_shape ''!!!O TL: x'' \<and> blank_before_colon ''!!!O TL: x''"
    by code_simp
  have b: "reference_shape ''!!!OTL'' \<and> string_find ''!!!OTL'' (CHR '':'') = None"
    by code_simp
  have c: "reference_shape ''!!!:'' \<and> length ''!!!:'' < 5"
    by code_simp
  have d: "reference_shape ''!!!OTL: x'' \<and> 5 \<le> length ''!!!OTL: x''
      \<and> string_find ''!!!OTL: x'' (CHR '':'') \<noteq> None \<and> \<not> blank_before_colon ''!!!OTL: x''"
    by code_simp
  have e: "reference_shape [CHR ''!'', CHR ''!'', CHR ''!'', CHR 0x0B, CHR '':'', CHR ''y'']
      \<and> 5 \<le> length [CHR ''!'', CHR ''!'', CHR ''!'', CHR 0x0B, CHR '':'', CHR ''y'']
      \<and> colon_before_key_text [CHR ''!'', CHR ''!'', CHR ''!'', CHR 0x0B, CHR '':'', CHR ''y'']
      \<and> \<not> blank_before_colon [CHR ''!'', CHR ''!'', CHR ''!'', CHR 0x0B, CHR '':'', CHR ''y'']"
    by code_simp
  have s: "line_string (text_line ''!!!O TL: x'') = ''!!!O TL: x''"
    "line_string (text_line ''!!!OTL'') = ''!!!OTL''"
    "line_string (text_line ''!!!:'') = ''!!!:''"
    "line_string (text_line ''!!!OTL: x'') = ''!!!OTL: x''"
    "line_string (text_line [CHR ''!'', CHR ''!'', CHR ''!'', CHR 0x0B, CHR '':'', CHR ''y''])
      = [CHR ''!'', CHR ''!'', CHR ''!'', CHR 0x0B, CHR '':'', CHR ''y'']"
    by (simp_all add: text_line_def)
  from a malformed_reference [of "text_line ''!!!O TL: x''"]
  have a': "isGlobalReference (text_line ''!!!O TL: x'') = Inr False
      \<and> isReference (text_line ''!!!O TL: x'') = Inr False
      \<and> isCommentGlobal (text_line ''!!!O TL: x'')"
    unfolding s by blast
  from b malformed_reference [of "text_line ''!!!OTL''"]
  have b': "isGlobalReference (text_line ''!!!OTL'') = Inr False
      \<and> isReference (text_line ''!!!OTL'') = Inr False
      \<and> isCommentGlobal (text_line ''!!!OTL'')"
    unfolding s by blast
  from c malformed_reference [of "text_line ''!!!:''"]
  have c': "isGlobalReference (text_line ''!!!:'') = Inr False
      \<and> isReference (text_line ''!!!:'') = Inr False
      \<and> isCommentGlobal (text_line ''!!!:'')"
    unfolding s by blast
  from d malformed_reference [of "text_line ''!!!OTL: x''"]
  have d': "isGlobalReference (text_line ''!!!OTL: x'') = Inr True"
    unfolding s by simp
  from e malformed_reference
    [of "text_line [CHR ''!'', CHR ''!'', CHR ''!'', CHR 0x0B, CHR '':'', CHR ''y'']"]
  have e': "isGlobalReference
        (text_line [CHR ''!'', CHR ''!'', CHR ''!'', CHR 0x0B, CHR '':'', CHR ''y'']) = Inr True
      \<and> getReferenceKey
        (text_line [CHR ''!'', CHR ''!'', CHR ''!'', CHR 0x0B, CHR '':'', CHR ''y'']) = Inr []"
    unfolding s by blast
  from a b c d e a' b' c' d' e' show ?thesis by blast
qed

text \<open>
  Claim C7 as stated fails on \<^verbatim>\<open>!!!:x\<close>: the colon comes before any key text, and the
  line is classified as a reference record, with an empty key.
\<close>

theorem empty_key_counterexample:
  "reference_shape ''!!!:x'' \<and> colon_before_key_text ''!!!:x''
   \<and> isGlobalReference (text_line ''!!!:x'') = Inr True
   \<and> getReferenceKey (text_line ''!!!:x'') = Inr []"
  by code_simp

subsection \<open>Constructors\<close>

text \<open>The tokenizer always returns, and writes the two vectors only.\<close>

lemma createTokensFromLine_split:
  "createTokensFromLine blank line =
     Inr (line\<lparr>m_tokens := tz_tokens (split_text blank (line_string line)),
              m_tabs := tz_tabs (split_text blank (line_string line))\<rparr>)"
  by (simp add: createTokensFromLine_def split_text_def flush_token_def scan_text_def
        tokenizer_start_def tokenize_loop_fold Let_def)

lemma createTokensFromLine_frame:
  "\<exists>toks tabs. createTokensFromLine blank line = Inr (line\<lparr>m_tokens := toks, m_tabs := tabs\<rparr>)"
  using createTokensFromLine_split by blast

lemma HumdrumLine_string_fields:
  "\<exists>line. HumdrumLine_string blank raw s = Inr line
     \<and> m_duration line = - 1 \<and> m_durationFromStart line = - 1
     \<and> m_durationFromBarline line = m_durationFromBarline raw
     \<and> m_durationToBarline line = m_durationToBarline raw"
proof -
  define l0 where "l0 = (let line = raw\<lparr>line_string := s, m_tokens := [], m_tabs := [], m_owner := None\<rparr>;
          line = (if length (line_string line) > 0 \<and> last (line_string line) = CR then
                    line\<lparr>line_string := take (length (line_string line) - 1) (line_string line)\<rparr>
                  else line)
      in line\<lparr>m_duration := -1, m_durationFromStart := -1\<rparr>)"
  have f: "m_duration l0 = - 1 \<and> m_durationFromStart l0 = - 1
     \<and> m_durationFromBarline l0 = m_durationFromBarline raw
     \<and> m_durationToBarline l0 = m_durationToBarline raw"
    by (simp add: l0_def Let_def)
  have e: "HumdrumLine_string blank raw s = createTokensFromLine blank l0"
    by (simp add: HumdrumLine_string_def l0_def Let_def)
  from createTokensFromLine_frame [of blank l0] obtain toks tabs where
    "createTokensFromLine blank l0 = Inr (l0\<lparr>m_tokens := toks, m_tabs := tabs\<rparr>)" by blast
  with e f show ?thesis by simp
qed

text \<open>
  Claim C9, as amended. After each of the three constructors, \<open>m_duration\<close> and
  \<open>m_durationFromStart\<close> are \<open>-1\<close>; \<open>m_durationFromBarline\<close> and \<open>m_durationToBarline\<close>
  are not assigned and hold what their own initialisation gave them. The constructors from
  a string always return.
\<close>

theorem constructor_durations:
  "m_duration (HumdrumLine_void raw) = - 1
   \<and> m_durationFromStart (HumdrumLine_void raw) = - 1
   \<and> m_durationFromBarline (HumdrumLine_void raw) = m_durationFromBarline raw
   \<and> m_durationToBarline (HumdrumLine_void raw) = m_durationToBarline raw
   \<and> (\<exists>line. HumdrumLine_string blank raw s = Inr line
        \<and> m_duration line = - 1 \<and> m_durationFromStart line = - 1
        \<and> m_durationFromBarline line = m_durationFromBarline raw
        \<and> m_durationToBarline line = m_durationToBarline raw)
   \<and> (\<exists>line. HumdrumLine_cstr blank raw s = Inr line
        \<and> m_duration line = - 1 \<and> m_durationFromStart line = - 1
        \<and> m_durationFromBarline line = m_durationFromBarline raw
        \<and> m_durationToBarline line = m_durationToBarline raw)"
  using HumdrumLine_string_fields [of blank raw s]
        HumdrumLine_string_fields [of blank raw "c_str s"]
  by (simp add: HumdrumLine_void_def HumdrumLine_cstr_def)

theorem constructor_durations_witness:
  "m_duration (HumdrumLine_void (raw_line 0)) = - 1
   \<and> m_durationFromStart (HumdrumLine_void (raw_line 0)) = - 1
   \<and> m_durationFromBarline (HumdrumLine_void (raw_line 0)) = 0
   \<and> m_durationToBarline (HumdrumLine_void (raw_line 0)) = 0"
  using constructor_durations [of "raw_line 0"] by (simp add: raw_line_def)

text \<open>
  Claim C9 as stated fails when a default-constructed \<^verbatim>\<open>HumNum\<close> is zero: the two
  barline fields of a new line are then zero, not negative.
\<close>

theorem constructor_barline_fields_counterexample:
  "\<not> (m_duration (HumdrumLine_void (raw_line 0)) < 0
      \<and> m_durationFromStart (HumdrumLine_void (raw_line 0)) < 0
      \<and> m_durationFromBarline (HumdrumLine_void (raw_line 0)) < 0
      \<and> m_durationToBarline (HumdrumLine_void (raw_line 0)) < 0)"
  by (simp add: HumdrumLine_void_def raw_line_def)

subsection \<open>Duration accessors\<close>

text \<open>
  Claim C8. Once the rhythm has been analyzed (the gate is set when the accessor has made
  its check), \<open>getBarlineDuration\<close> returns \<open>m_durationToBarline\<close> on a barline and
  \<open>m_durationFromBarline + m_durationToBarline\<close> on any other line.
\<close>

theorem barline_duration:
  "m_rhythm_analyzed (this (rhythm_gate ars w)) \<Longrightarrow>
   getBarlineDuration ars w =
     (if isBarline (this (rhythm_gate ars w))
      then m_durationToBarline (this (rhythm_gate ars w))
      else m_durationFromBarline (this (rhythm_gate ars w))
           + m_durationToBarline (this (rhythm_gate ars w)),
      rhythm_gate ars w)"
  by (simp add: getBarlineDuration_def getDurationToBarline_def getDurationFromBarline_def
        rhythm_gate_def Let_def)

theorem barline_duration_witness:
  "m_rhythm_analyzed (this (rhythm_gate (\<lambda>l. l)
      \<lparr>this = (text_line ''=1'')\<lparr>m_rhythm_analyzed := True, m_durationToBarline := 3\<rparr>,
       analyses = 0\<rparr>))
   \<and> fst (getBarlineDuration (\<lambda>l. l)
      \<lparr>this = (text_line ''=1'')\<lparr>m_rhythm_analyzed := True, m_durationToBarline := 3\<rparr>,
       analyses = 0\<rparr>) = 3
   \<and> fst (getBarlineDuration (\<lambda>l. l)
      \<lparr>this = (text_line ''4c'')\<lparr>m_rhythm_analyzed := True, m_durationFromBarline := 1,
         m_durationToBarline := 2\<rparr>,
       analyses = 0\<rparr>) = 3"
  using barline_duration [of "\<lambda>l. l"
      "\<lparr>this = (text_line ''=1'')\<lparr>m_rhythm_analyzed := True, m_durationToBarline := 3\<rparr>,
       analyses = 0\<rparr>"]
    barline_duration [of "\<lambda>l. l"
      "\<lparr>this = (text_line ''4c'')\<lparr>m_rhythm_analyzed := True, m_durationFromBarline := 1,
         m_durationToBarline := 2\<rparr>,
       analyses = 0\<rparr>"]
  by (simp add: rhythm_gate_def text_line_def isBarline_def equalChar_def subscript_def)

text \<open>
  Claim C4. Every duration accessor should, with the gate set, return its value without
  another analysis. \<open>getDurationToEnd\<close> does not: with the gate set it returns 0, whatever
  the score duration and \<open>m_durationFromStart\<close> are; for a score of duration 4 and a line
  starting at 1 the duration to the end is 3.
\<close>

theorem duration_to_end_analyzed:
  "getDurationToEnd ars (w\<lparr>this := (this w)\<lparr>m_rhythm_analyzed := True\<rparr>\<rparr>) =
     Inr (0, w\<lparr>this := (this w)\<lparr>m_rhythm_analyzed := True\<rparr>\<rparr>)
   \<and> getDurationToEnd ars
       \<lparr>this = (text_line ''4c'')\<lparr>m_rhythm_analyzed := True,
          m_owner := Some \<lparr>scoreDuration = 4\<rparr>, m_durationFromStart := 1\<rparr>,
        analyses = n\<rparr> =
     Inr (0, \<lparr>this = (text_line ''4c'')\<lparr>m_rhythm_analyzed := True,
          m_owner := Some \<lparr>scoreDuration = 4\<rparr>, m_durationFromStart := 1\<rparr>,
        analyses = n\<rparr>)"
  by (simp add: getDurationToEnd_def text_line_def)

text \<open>The other accessors do what the claim says.\<close>

lemma gated_accessors:
  "m_rhythm_analyzed (this w) \<Longrightarrow>
     getDuration ars w = (m_duration (this w), w)
   \<and> getDurationFromStart ars w = (m_durationFromStart (this w), w)
   \<and> getDurationFromBarline ars w = (m_durationFromBarline (this w), w)
   \<and> getDurationToBarline ars w = (m_durationToBarline (this w), w)"
  by (simp add: getDuration_def getDurationFromStart_def getDurationFromBarline_def
        getDurationToBarline_def rhythm_gate_def)

lemma gate_triggers:
  "\<not> m_rhythm_analyzed (this w) \<Longrightarrow> m_owner (this w) \<noteq> None \<Longrightarrow>
     snd (getDuration ars w) = \<lparr>this = ars (this w), analyses = Suc (analyses w)\<rparr>
   \<and> snd (getDurationFromStart ars w) = \<lparr>this = ars (this w), analyses = Suc (analyses w)\<rparr>
   \<and> snd (getDurationFromBarline ars w) = \<lparr>this = ars (this w), analyses = Suc (analyses w)\<rparr>
   \<and> snd (getDurationToBarline ars w) = \<lparr>this = ars (this w), analyses = Suc (analyses w)\<rparr>
   \<and> (getDurationToEnd ars w = Inl NullPointer
        \<or> (\<exists>r. getDurationToEnd ars w =
              Inr (r, \<lparr>this = ars (this w), analyses = Suc (analyses w)\<rparr>)))"
  by (cases w; cases "m_owner (ars (this w))")
     (auto simp add: getDuration_def getDurationFromStart_def getDurationFromBarline_def
        getDurationToBarline_def getDurationToEnd_def rhythm_gate_def Let_def)

subsection \<open>Tracks and subtracks\<close>

text \<open>The scan of a spine info reads its first run of digits, when the number fits.\<close>

lemma digit_value_range: "isdigit c \<Longrightarrow> 0 \<le> digit_value c \<and> digit_value c \<le> 9"
  by (auto simp: isdigit_def digit_value_def)

lemma foldl_digits_ge:
  "0 \<le> acc \<Longrightarrow> \<forall>c\<in>set ds. isdigit c \<Longrightarrow>
   acc \<le> foldl (\<lambda>a c. a * 10 + digit_value c) acc ds"
proof (induction ds arbitrary: acc)
  case Nil
  then show ?case by simp
next
  case (Cons d ds)
  from Cons.prems have d: "0 \<le> digit_value d" by (simp add: digit_value_range)
  with Cons.prems have "acc \<le> acc * 10 + digit_value d" by simp
  also have "\<dots> \<le> foldl (\<lambda>a c. a * 10 + digit_value c) (acc * 10 + digit_value d) ds"
    using Cons.prems d by (intro Cons.IH) auto
  finally show ?case by simp
qed

lemma scan_digits_value:
  "0 \<le> acc \<Longrightarrow>
   foldl (\<lambda>a c. a * 10 + digit_value c) acc (takeWhile isdigit cs) \<le> INT_MAX \<Longrightarrow>
   scan_digits acc cs = Inr (foldl (\<lambda>a c. a * 10 + digit_value c) acc (takeWhile isdigit cs))"
proof (induction cs arbitrary: acc)
  case Nil
  then show ?case by simp
next
  case (Cons c cs)
  show ?case
  proof (cases "isdigit c")
    case True
    let ?a = "acc * 10 + digit_value c"
    from True Cons.prems have a0: "0 \<le> ?a" by (simp add: digit_value_range)
    from True Cons.prems have b: "foldl (\<lambda>a c. a * 10 + digit_value c) ?a (takeWhile isdigit cs) \<le> INT_MAX"
      by simp
    have "?a \<le> foldl (\<lambda>a c. a * 10 + digit_value c) ?a (takeWhile isdigit cs)"
      using a0 by (intro foldl_digits_ge) (auto dest: set_takeWhileD)
    with b have "?a \<le> INT_MAX" by simp
    with True Cons.IH [OF a0 b] show ?thesis by simp
  next
    case False
    then show ?thesis by simp
  qed
qed

lemma scan_track_value:
  "decimal (first_digit_run s) \<le> INT_MAX \<Longrightarrow> scan_track s = Inr (decimal (first_digit_run s))"
proof (induction s)
  case Nil
  then show ?case by (simp add: decimal_def first_digit_run_def)
next
  case (Cons c cs)
  show ?case
  proof (cases "isdigit c")
    case True
    with Cons.prems show ?thesis
      using scan_digits_value [of "digit_value c" cs]
      by (simp add: decimal_def first_digit_run_def digit_value_range)
  next
    case False
    with Cons show ?thesis by (simp add: first_digit_run_def)
  qed
qed

lemma decimal_nonneg: "0 \<le> decimal (first_digit_run s)"
proof -
  have "\<forall>c\<in>set (takeWhile isdigit (dropWhile (\<lambda>c. \<not> isdigit c) s)). isdigit c"
    by (auto dest: set_takeWhileD)
  from foldl_digits_ge [OF _ this, of 0] show ?thesis
    by (simp add: decimal_def first_digit_run_def)
qed


text \<open>The three loops of \<open>analyzeTracks\<close>.\<close>

lemma assign_tracks_value:
  "\<forall>t\<in>set toks. \<exists>tok. t = Some tok \<and> track_of tok \<le> INT_MAX \<Longrightarrow>
   \<exists>maxtrack'. assign_tracks toks maxtrack = Inr (map set_track toks, maxtrack')
     \<and> maxtrack \<le> maxtrack'
     \<and> (\<forall>t\<in>set toks. \<forall>tok. t = Some tok \<longrightarrow> track_of tok \<le> maxtrack')
     \<and> (maxtrack' = maxtrack \<or> (\<exists>tok. Some tok \<in> set toks \<and> maxtrack' = track_of tok))"
proof (induction toks arbitrary: maxtrack)
  case Nil
  then show ?case by simp
next
  case (Cons t toks)
  from Cons.prems obtain tok where t: "t = Some tok" and b: "track_of tok \<le> INT_MAX"
    by auto
  have s: "scan_track (tok_spineInfo tok) = Inr (track_of tok)"
    using b by (simp add: track_of_def scan_track_value)
  let ?m = "if maxtrack < track_of tok then track_of tok else maxtrack"
  from Cons.prems have "\<forall>t\<in>set toks. \<exists>tok. t = Some tok \<and> track_of tok \<le> INT_MAX"
    by simp
  from Cons.IH [OF this, of ?m] obtain m' where
    a: "assign_tracks toks ?m = Inr (map set_track toks, m')" and
    le: "?m \<le> m'" and
    all: "\<forall>t\<in>set toks. \<forall>tok. t = Some tok \<longrightarrow> track_of tok \<le> m'" and
    ex: "m' = ?m \<or> (\<exists>tok. Some tok \<in> set toks \<and> m' = track_of tok)"
    by blast
  have "assign_tracks (t # toks) maxtrack = Inr (map set_track (t # toks), m')"
    using t s a by (simp add: set_track_def)
  moreover have "maxtrack \<le> m'" using le by (simp split: if_splits)
  moreover have "\<forall>u\<in>set (t # toks). \<forall>tok. u = Some tok \<longrightarrow> track_of tok \<le> m'"
    using all le t by (auto split: if_splits)
  moreover have "m' = maxtrack \<or> (\<exists>tok. Some tok \<in> set (t # toks) \<and> m' = track_of tok)"
    using ex t by (auto split: if_splits)
  ultimately show ?case by blast
qed

lemma count_tracks_value:
  "\<forall>t\<in>set toks. t \<noteq> None \<and> 0 \<le> stored_track t \<and> stored_track t < int (length v) \<Longrightarrow>
   \<exists>v'. count_tracks toks v = Inr v' \<and> length v' = length v
     \<and> (\<forall>k<length v. v' ! k = v ! k + int (count_list (map stored_track toks) (int k)))"
proof (induction toks arbitrary: v)
  case Nil
  then show ?case by simp
next
  case (Cons t toks)
  from Cons.prems obtain tok where t: "t = Some tok" and
    r: "0 \<le> tok_track tok" "tok_track tok < int (length v)"
    by (cases t) (auto simp: stored_track_def)
  let ?v = "v[nat (tok_track tok) := v ! nat (tok_track tok) + 1]"
  have i: "vector_incr v (tok_track tok) = Inr ?v" using r by (simp add: vector_incr_def)
  from Cons.prems have "\<forall>t\<in>set toks. t \<noteq> None \<and> 0 \<le> stored_track t \<and> stored_track t < int (length ?v)"
    by simp
  from Cons.IH [OF this] obtain v' where
    c: "count_tracks toks ?v = Inr v'" and l: "length v' = length ?v" and
    k: "\<forall>k<length ?v. v' ! k = ?v ! k + int (count_list (map stored_track toks) (int k))"
    by blast
  have "count_tracks (t # toks) v = Inr v'" using t i c by simp
  moreover have "length v' = length v" using l by simp
  moreover have "\<forall>k<length v. v' ! k = v ! k + int (count_list (map stored_track (t # toks)) (int k))"
  proof (intro allI impI)
    fix k assume kl: "k < length v"
    with k have "v' ! k = ?v ! k + int (count_list (map stored_track toks) (int k))" by simp
    moreover have "?v ! k = v ! k + (if int k = tok_track tok then 1 else 0)"
      using kl r by (auto simp: nth_list_update)
    ultimately show "v' ! k = v ! k + int (count_list (map stored_track (t # toks)) (int k))"
      using t by (auto simp: stored_track_def)
  qed
  ultimately show ?case by blast
qed


lemma assign_subtracks_value:
  "\<forall>t\<in>set toks. t \<noteq> None \<and> 0 \<le> stored_track t \<and> stored_track t < int (length subtracks) \<Longrightarrow>
   length cursub = length subtracks \<Longrightarrow>
   \<exists>toks'. assign_subtracks toks subtracks cursub = Inr toks' \<and> length toks' = length toks
     \<and> (\<forall>i<length toks. \<exists>tok. toks ! i = Some tok
          \<and> toks' ! i = Some (tok\<lparr>tok_subtrack :=
                 (if subtracks ! nat (tok_track tok) > 1
                  then cursub ! nat (tok_track tok)
                       + int (count_list (take (Suc i) (map stored_track toks)) (tok_track tok))
                  else 0),
               tok_subtrackCount := subtracks ! nat (tok_track tok)\<rparr>))"
proof (induction toks arbitrary: cursub)
  case Nil
  then show ?case by simp
next
  case (Cons t toks)
  from Cons.prems obtain tok where t: "t = Some tok" and
    r: "0 \<le> tok_track tok" "tok_track tok < int (length subtracks)"
    by (cases t) (auto simp: stored_track_def)
  let ?k = "nat (tok_track tok)"
  let ?n = "subtracks ! ?k"
  have g: "vector_get subtracks (tok_track tok) = Inr ?n"
    using r by (simp add: vector_get_def)
  from Cons.prems have rest:
    "\<forall>t\<in>set toks. t \<noteq> None \<and> 0 \<le> stored_track t \<and> stored_track t < int (length subtracks)"
    by simp
  show ?case
  proof (cases "?n > 1")
    case True
    let ?c = "cursub[?k := cursub ! ?k + 1]"
    have i: "vector_incr cursub (tok_track tok) = Inr ?c"
      using r Cons.prems(2) by (simp add: vector_incr_def)
    have g2: "vector_get ?c (tok_track tok) = Inr (cursub ! ?k + 1)"
      using r Cons.prems(2) by (simp add: vector_get_def)
    have lc: "length ?c = length subtracks" using Cons.prems(2) by simp
    from Cons.IH [OF rest lc] obtain toks' where
      a: "assign_subtracks toks subtracks ?c = Inr toks'" and l: "length toks' = length toks" and
      f: "\<forall>i<length toks. \<exists>tok. toks ! i = Some tok
          \<and> toks' ! i = Some (tok\<lparr>tok_subtrack :=
                 (if subtracks ! nat (tok_track tok) > 1
                  then ?c ! nat (tok_track tok)
                       + int (count_list (take (Suc i) (map stored_track toks)) (tok_track tok))
                  else 0),
               tok_subtrackCount := subtracks ! nat (tok_track tok)\<rparr>)"
      by blast
    let ?head = "tok\<lparr>tok_subtrack := cursub ! ?k + 1, tok_subtrackCount := ?n\<rparr>"
    have e: "assign_subtracks (t # toks) subtracks cursub = Inr (Some ?head # toks')"
      using t g True i g2 a by (simp add: Let_def)
    have "\<forall>i<length (t # toks). \<exists>tok. (t # toks) ! i = Some tok
          \<and> (Some ?head # toks') ! i = Some (tok\<lparr>tok_subtrack :=
                 (if subtracks ! nat (tok_track tok) > 1
                  then cursub ! nat (tok_track tok)
                       + int (count_list (take (Suc i) (map stored_track (t # toks))) (tok_track tok))
                  else 0),
               tok_subtrackCount := subtracks ! nat (tok_track tok)\<rparr>)"
    proof (intro allI impI)
      fix i assume il: "i < length (t # toks)"
      show "\<exists>tok. (t # toks) ! i = Some tok
          \<and> (Some ?head # toks') ! i = Some (tok\<lparr>tok_subtrack :=
                 (if subtracks ! nat (tok_track tok) > 1
                  then cursub ! nat (tok_track tok)
                       + int (count_list (take (Suc i) (map stored_track (t # toks))) (tok_track tok))
                  else 0),
               tok_subtrackCount := subtracks ! nat (tok_track tok)\<rparr>)"
      proof (cases i)
        case 0
        then show ?thesis using t True by (simp add: stored_track_def)
      next
        case (Suc j)
        with il have jl: "j < length toks" by simp
        with f obtain u where u: "toks ! j = Some u" and
          u': "toks' ! j = Some (u\<lparr>tok_subtrack :=
                 (if subtracks ! nat (tok_track u) > 1
                  then ?c ! nat (tok_track u)
                       + int (count_list (take (Suc j) (map stored_track toks)) (tok_track u))
                  else 0),
               tok_subtrackCount := subtracks ! nat (tok_track u)\<rparr>)"
          by blast
        from jl u rest have ur: "0 \<le> tok_track u" "tok_track u < int (length subtracks)"
          by (auto simp: stored_track_def dest!: nth_mem)
        have "?c ! nat (tok_track u) = cursub ! nat (tok_track u)
            + (if tok_track tok = tok_track u then 1 else 0)"
          using r ur Cons.prems(2) by (auto simp: nth_list_update)
        then show ?thesis using Suc u u' t by (auto simp: stored_track_def)
      qed
    qed
    with e l show ?thesis by auto
  next
    case False
    from Cons.IH [OF rest Cons.prems(2)] obtain toks' where
      a: "assign_subtracks toks subtracks cursub = Inr toks'" and l: "length toks' = length toks" and
      f: "\<forall>i<length toks. \<exists>tok. toks ! i = Some tok
          \<and> toks' ! i = Some (tok\<lparr>tok_subtrack :=
                 (if subtracks ! nat (tok_track tok) > 1
                  then cursub ! nat (tok_track tok)
                       + int (count_list (take (Suc i) (map stored_track toks)) (tok_track tok))
                  else 0),
               tok_subtrackCount := subtracks ! nat (tok_track tok)\<rparr>)"
      by blast
    let ?head = "tok\<lparr>tok_subtrack := 0, tok_subtrackCount := ?n\<rparr>"
    have e: "assign_subtracks (t # toks) subtracks cursub = Inr (Some ?head # toks')"
      using t g False a by (simp add: Let_def)
    have "\<forall>i<length (t # toks). \<exists>tok. (t # toks) ! i = Some tok
          \<and> (Some ?head # toks') ! i = Some (tok\<lparr>tok_subtrack :=
                 (if subtracks ! nat (tok_track tok) > 1
                  then cursub ! nat (tok_track tok)
                       + int (count_list (take (Suc i) (map stored_track (t # toks))) (tok_track tok))
                  else 0),
               tok_subtrackCount := subtracks ! nat (tok_track tok)\<rparr>)"
    proof (intro allI impI)
      fix i assume il: "i < length (t # toks)"
      show "\<exists>tok. (t # toks) ! i = Some tok
          \<and> (Some ?head # toks') ! i = Some (tok\<lparr>tok_subtrack :=
                 (if subtracks ! nat (tok_track tok) > 1
                  then cursub ! nat (tok_track tok)
                       + int (count_list (take (Suc i) (map stored_track (t # toks))) (tok_track tok))
                  else 0),
               tok_subtrackCount := subtracks ! nat (tok_track tok)\<rparr>)"
      proof (cases i)
        case 0
        then show ?thesis using t False by simp
      next
        case (Suc j)
        with il have jl: "j < length toks" by simp
        with f obtain u where u: "toks ! j = Some u" and
          u': "toks' ! j = Some (u\<lparr>tok_subtrack :=
                 (if subtracks ! nat (tok_track u) > 1
                  then cursub ! nat (tok_track u)
                       + int (count_list (take (Suc j) (map stored_track toks)) (tok_track u))
                  else 0),
               tok_subtrackCount := subtracks ! nat (tok_track u)\<rparr>)"
          by blast
        show ?thesis
        proof (cases "tok_track tok = tok_track u")
          case True
          with False have "\<not> subtracks ! nat (tok_track u) > 1" by simp
          then show ?thesis using Suc u u' by simp
        next
          case False
          then show ?thesis using Suc u u' t by (simp add: stored_track_def)
        qed
      qed
    qed
    with e l show ?thesis by auto
  qed
qed


text \<open>
  Claim C5, as amended. On a line without spines (an empty line or a global comment)
  \<open>analyzeTracks\<close> changes nothing. On a line with spines whose tokens are all present
  and whose track numbers stay below \<open>INT_MAX\<close>, every token gets as its track the number
  written by the first run of digits of its spine info (0 without a digit); a token whose
  track occurs more than once on the line gets as its subtrack its rank among the tokens
  of that track, counted from the left starting at 1; a token whose track occurs once gets
  subtrack 0. Nothing else of the token changes but the stored subtrack count.
\<close>

theorem analyzeTracks_assigns:
  "(\<not> hasSpines line \<longrightarrow> analyzeTracks err line = Inr (length err = 0, line))
   \<and> (hasSpines line
        \<and> (\<forall>t\<in>set (m_tokens line). \<exists>tok. t = Some tok \<and> track_of tok < INT_MAX)
      \<longrightarrow> (\<exists>toks'. analyzeTracks err line = Inr (length err = 0, line\<lparr>m_tokens := toks'\<rparr>)
            \<and> length toks' = length (m_tokens line)
            \<and> (\<forall>i<length (m_tokens line). \<exists>tok. m_tokens line ! i = Some tok
                 \<and> toks' ! i = Some (tok\<lparr>tok_track := line_tracks line ! i,
                       tok_subtrack := subtrack_of (line_tracks line) i,
                       tok_subtrackCount :=
                         int (count_list (line_tracks line) (line_tracks line ! i))\<rparr>))))"
proof (intro conjI impI)
  assume "\<not> hasSpines line"
  then show "analyzeTracks err line = Inr (length err = 0, line)"
    by (simp add: analyzeTracks_def)
next
  assume h: "hasSpines line
        \<and> (\<forall>t\<in>set (m_tokens line). \<exists>tok. t = Some tok \<and> track_of tok < INT_MAX)"
  let ?toks = "m_tokens line"
  let ?toks1 = "map set_track ?toks"
  from h have b: "\<forall>t\<in>set ?toks. \<exists>tok. t = Some tok \<and> track_of tok \<le> INT_MAX"
    by fastforce
  from assign_tracks_value [OF b, of 0] obtain M where
    a: "assign_tracks ?toks 0 = Inr (?toks1, M)" and M0: "0 \<le> M" and
    Mall: "\<forall>t\<in>set ?toks. \<forall>tok. t = Some tok \<longrightarrow> track_of tok \<le> M" and
    Mex: "M = 0 \<or> (\<exists>tok. Some tok \<in> set ?toks \<and> M = track_of tok)"
    by blast
  from Mex h have Mlt: "M < INT_MAX" by (auto simp: INT_MAX_def)
  let ?v0 = "replicate (nat (M + 1)) (0::int)"
  have tr: "map stored_track ?toks1 = line_tracks line"
    using h by (auto simp: line_tracks_def stored_track_def set_track_def)
  have r1: "\<forall>t\<in>set ?toks1. t \<noteq> None \<and> 0 \<le> stored_track t \<and> stored_track t < int (length ?v0)"
  proof
    fix t assume "t \<in> set ?toks1"
    then obtain u where u: "u \<in> set ?toks" and t: "t = set_track u" by auto
    from u h obtain tok where tok: "u = Some tok" by blast
    with u Mall have "track_of tok \<le> M" by blast
    moreover have "0 \<le> track_of tok" by (simp add: track_of_def decimal_nonneg)
    ultimately show "t \<noteq> None \<and> 0 \<le> stored_track t \<and> stored_track t < int (length ?v0)"
      using t tok M0 by (simp add: set_track_def stored_track_def)
  qed
  from count_tracks_value [OF r1] obtain v where
    c: "count_tracks ?toks1 ?v0 = Inr v" and lv: "length v = length ?v0" and
    vk: "\<forall>k<length ?v0. v ! k = ?v0 ! k + int (count_list (map stored_track ?toks1) (int k))"
    by blast
  from r1 lv have r2: "\<forall>t\<in>set ?toks1. t \<noteq> None \<and> 0 \<le> stored_track t \<and> stored_track t < int (length v)"
    by simp
  have lc: "length ?v0 = length v" using lv by simp
  from assign_subtracks_value [OF r2 lc] obtain toks2 where
    s: "assign_subtracks ?toks1 v ?v0 = Inr toks2" and l2: "length toks2 = length ?toks1" and
    f: "\<forall>i<length ?toks1. \<exists>tok. ?toks1 ! i = Some tok
          \<and> toks2 ! i = Some (tok\<lparr>tok_subtrack :=
                 (if v ! nat (tok_track tok) > 1
                  then ?v0 ! nat (tok_track tok)
                       + int (count_list (take (Suc i) (map stored_track ?toks1)) (tok_track tok))
                  else 0),
               tok_subtrackCount := v ! nat (tok_track tok)\<rparr>)"
    by blast
  have vk': "\<forall>k<length ?v0. v ! k = ?v0 ! k + int (count_list (line_tracks line) (int k))"
    using vk by (simp only: tr)
  have f': "\<forall>i<length ?toks1. \<exists>tok. ?toks1 ! i = Some tok
          \<and> toks2 ! i = Some (tok\<lparr>tok_subtrack :=
                 (if v ! nat (tok_track tok) > 1
                  then ?v0 ! nat (tok_track tok)
                       + int (count_list (take (Suc i) (line_tracks line)) (tok_track tok))
                  else 0),
               tok_subtrackCount := v ! nat (tok_track tok)\<rparr>)"
    using f by (simp only: tr)
  have e: "analyzeTracks err line = Inr (length err = 0, line\<lparr>m_tokens := toks2\<rparr>)"
    using h a Mlt c s by (simp add: analyzeTracks_def INT_MAX_def Let_def)
  have "\<forall>i<length ?toks. \<exists>tok. ?toks ! i = Some tok
                 \<and> toks2 ! i = Some (tok\<lparr>tok_track := line_tracks line ! i,
                       tok_subtrack := subtrack_of (line_tracks line) i,
                       tok_subtrackCount :=
                         int (count_list (line_tracks line) (line_tracks line ! i))\<rparr>)"
  proof (intro allI impI)
    fix i assume il: "i < length ?toks"
    with h obtain tok where tok: "?toks ! i = Some tok" by (metis nth_mem)
    from il tok have t1: "?toks1 ! i = Some (tok\<lparr>tok_track := track_of tok\<rparr>)"
      by (simp add: set_track_def)
    from il tok have lt: "line_tracks line ! i = track_of tok"
      by (simp add: line_tracks_def)
    from il tok Mall have tm: "track_of tok \<le> M" by (metis nth_mem)
    have t0: "0 \<le> track_of tok" by (simp add: track_of_def decimal_nonneg)
    from tm t0 M0 have kl: "nat (track_of tok) < length ?v0" by simp
    with vk' have "v ! nat (track_of tok) =
        ?v0 ! nat (track_of tok) + int (count_list (line_tracks line) (int (nat (track_of tok))))"
      by blast
    with kl t0 have vv: "v ! nat (track_of tok) = int (count_list (line_tracks line) (track_of tok))"
      by simp
    from f' il t1 have "toks2 ! i = Some ((tok\<lparr>tok_track := track_of tok\<rparr>)\<lparr>tok_subtrack :=
                 (if v ! nat (track_of tok) > 1
                  then ?v0 ! nat (track_of tok)
                       + int (count_list (take (Suc i) (line_tracks line)) (track_of tok))
                  else 0),
               tok_subtrackCount := v ! nat (track_of tok)\<rparr>)"
      by fastforce
    with vv kl have "toks2 ! i = Some (tok\<lparr>tok_track := line_tracks line ! i,
                       tok_subtrack := subtrack_of (line_tracks line) i,
                       tok_subtrackCount :=
                         int (count_list (line_tracks line) (line_tracks line ! i))\<rparr>)"
      by (simp add: lt subtrack_of_def)
    with tok show "\<exists>tok. ?toks ! i = Some tok
                 \<and> toks2 ! i = Some (tok\<lparr>tok_track := line_tracks line ! i,
                       tok_subtrack := subtrack_of (line_tracks line) i,
                       tok_subtrackCount :=
                         int (count_list (line_tracks line) (line_tracks line ! i))\<rparr>)"
      by blast
  qed
  with e l2 show "\<exists>toks'. analyzeTracks err line = Inr (length err = 0, line\<lparr>m_tokens := toks'\<rparr>)
            \<and> length toks' = length (m_tokens line)
            \<and> (\<forall>i<length (m_tokens line). \<exists>tok. m_tokens line ! i = Some tok
                 \<and> toks' ! i = Some (tok\<lparr>tok_track := line_tracks line ! i,
                       tok_subtrack := subtrack_of (line_tracks line) i,
                       tok_subtrackCount :=
                         int (count_list (line_tracks line) (line_tracks line ! i))\<rparr>))"
    by auto
qed


theorem analyzeTracks_assigns_witness:
  "hasSpines split_line
   \<and> list_all (\<lambda>t. t \<noteq> None) (m_tokens split_line)
   \<and> (\<exists>toks'. analyzeTracks [] split_line = Inr (True, split_line\<lparr>m_tokens := toks'\<rparr>)
        \<and> map (map_option tok_track) toks' = [Some 1, Some 1, Some 2]
        \<and> map (map_option tok_subtrack) toks' = [Some 1, Some 2, Some 0])"
proof -
  have h1: "hasSpines split_line" by code_simp
  have t: "track_of (blank_token\<lparr>tok_string := ''4c'', tok_spineInfo := ''(1)a''\<rparr>) = 1"
    "track_of (blank_token\<lparr>tok_string := ''4e'', tok_spineInfo := ''(1)b''\<rparr>) = 1"
    "track_of (blank_token\<lparr>tok_string := ''4g'', tok_spineInfo := ''2''\<rparr>) = 2"
    by code_simp+
  have h2: "\<forall>t\<in>set (m_tokens split_line). \<exists>tok. t = Some tok \<and> track_of tok < INT_MAX"
    by (simp add: split_line_def t INT_MAX_def)
  from analyzeTracks_assigns [of split_line "[]"] h1 h2 obtain toks' where
    e: "analyzeTracks [] split_line = Inr (True, split_line\<lparr>m_tokens := toks'\<rparr>)"
    by auto
  have v: "analyzeTracks [] split_line = Inr (True, split_line\<lparr>m_tokens :=
      [Some (blank_token\<lparr>tok_string := ''4c'', tok_spineInfo := ''(1)a'', tok_track := 1,
         tok_subtrack := 1, tok_subtrackCount := 2\<rparr>),
       Some (blank_token\<lparr>tok_string := ''4e'', tok_spineInfo := ''(1)b'', tok_track := 1,
         tok_subtrack := 2, tok_subtrackCount := 2\<rparr>),
       Some (blank_token\<lparr>tok_string := ''4g'', tok_spineInfo := ''2'', tok_track := 2,
         tok_subtrack := 0, tok_subtrackCount := 1\<rparr>)]\<rparr>)"
    by code_simp
  from e v have "m_tokens (split_line\<lparr>m_tokens := toks'\<rparr>) = m_tokens (split_line\<lparr>m_tokens :=
      [Some (blank_token\<lparr>tok_string := ''4c'', tok_spineInfo := ''(1)a'', tok_track := 1,
         tok_subtrack := 1, tok_subtrackCount := 2\<rparr>),
       Some (blank_token\<lparr>tok_string := ''4e'', tok_spineInfo := ''(1)b'', tok_track := 1,
         tok_subtrack := 2, tok_subtrackCount := 2\<rparr>),
       Some (blank_token\<lparr>tok_string := ''4g'', tok_spineInfo := ''2'', tok_track := 2,
         tok_subtrack := 0, tok_subtrackCount := 1\<rparr>)]\<rparr>)"
    by simp
  then have "map (map_option tok_track) toks' = [Some 1, Some 1, Some 2]
        \<and> map (map_option tok_subtrack) toks' = [Some 1, Some 2, Some 0]"
    by simp
  with e h1 show ?thesis by (auto simp: split_line_def)
qed

text \<open>
  Claim C5 as stated fails on a global comment: \<open>analyzeTracks\<close> returns at once, and the
  token keeps the track and subtrack it had (here \<open>-1\<close>), where the claim gives it track 0
  and subtrack 0.
\<close>

theorem analyzeTracks_comment_counterexample:
  "analyzeTracks [] comment_line = Inr (True, comment_line)
   \<and> map (map_option tok_track) (m_tokens comment_line) = [Some (- 1)]
   \<and> map (map_option tok_subtrack) (m_tokens comment_line) = [Some (- 1)]
   \<and> line_tracks comment_line = [0]"
  by code_simp

subsection \<open>The round trip through the text\<close>



























end
